theory Spec2Isabelle
  imports Main "HOL-Library.Word"
begin

unbundle bit_operations_syntax

section \<open>Strings and bytes of the platform\<close>

text \<open>
  A JavaScript string is a sequence of UTF-16 code units: \<open>length\<close>, \<open>substr\<close> and
  \<open>startsWith\<close> count code units. \<open>Buffer.byteLength\<close> and \<open>hash.update\<close> see the UTF-8
  encoding of the string, which is a different length as soon as a character lies outside
  ASCII. Both views are modelled: \<open>jsstring\<close> for what the code handles, \<open>byte list\<close> for
  what reaches the hash.
\<close>

type_synonym unit16 = "16 word"
type_synonym jsstring = "unit16 list"
type_synonym byte = "8 word"

definition js :: "string \<Rightarrow> jsstring" where
  "js s = map (\<lambda>c. of_nat (of_char c)) s"

definition ascii :: "string \<Rightarrow> byte list" where
  "ascii s = map (\<lambda>c. of_nat (of_char c)) s"

definition is_high_surrogate :: "unit16 \<Rightarrow> bool" where
  "is_high_surrogate u = (0xD800 \<le> u \<and> u \<le> 0xDBFF)"

definition is_low_surrogate :: "unit16 \<Rightarrow> bool" where
  "is_low_surrogate u = (0xDC00 \<le> u \<and> u \<le> 0xDFFF)"

text \<open>UTF-8 bytes of one code point (below \<open>0x110000\<close>).\<close>

definition utf8_code_point :: "nat \<Rightarrow> byte list" where
  "utf8_code_point cp =
     (if cp < 0x80 then [of_nat cp]
      else if cp < 0x800 then [of_nat (0xC0 + cp div 64), of_nat (0x80 + cp mod 64)]
      else if cp < 0x10000 then
        [of_nat (0xE0 + cp div 4096), of_nat (0x80 + (cp div 64) mod 64),
         of_nat (0x80 + cp mod 64)]
      else
        [of_nat (0xF0 + cp div 262144), of_nat (0x80 + (cp div 4096) mod 64),
         of_nat (0x80 + (cp div 64) mod 64), of_nat (0x80 + cp mod 64)])"

text \<open>
  The encoder of the runtime: a high surrogate followed by a low one is one code point of
  four bytes; a surrogate on its own becomes U+FFFD (\<open>EF BF BD\<close>).
\<close>

fun utf8 :: "jsstring \<Rightarrow> byte list" where
  "utf8 [] = []"
| "utf8 [u] =
     (if is_high_surrogate u \<or> is_low_surrogate u then [0xEF, 0xBF, 0xBD]
      else utf8_code_point (unat u))"
| "utf8 (u # v # us) =
     (if is_high_surrogate u \<and> is_low_surrogate v then
        utf8_code_point (0x10000 + (unat u - 0xD800) * 1024 + (unat v - 0xDC00)) @ utf8 us
      else if is_high_surrogate u \<or> is_low_surrogate u then
        [0xEF, 0xBF, 0xBD] @ utf8 (v # us)
      else utf8_code_point (unat u) @ utf8 (v # us))"

text \<open>\<open>Buffer.byteLength(key)\<close>: the number of UTF-8 bytes.\<close>

definition byteLength :: "jsstring \<Rightarrow> nat" where
  "byteLength s = length (utf8 s)"

text \<open>A non-negative integer in a template literal: its decimal digits.\<close>

fun decimal :: "nat \<Rightarrow> string" where
  "decimal n =
     (if n < 10 then [char_of (48 + n)]
      else decimal (n div 10) @ [char_of (48 + n mod 10)])"

declare decimal.simps [simp del]

subsection \<open>SHA-1 (FIPS 180-4), the digest behind \<open>createHash("sha1")\<close>\<close>

text \<open>
  The 32-bit words of the algorithm are naturals below \<open>2^32\<close>, with the wrap-around of
  each addition and rotation written out.
\<close>

definition rotl32 :: "nat \<Rightarrow> nat \<Rightarrow> nat" where
  "rotl32 n x = (x * 2 ^ n) mod 4294967296 OR x div 2 ^ (32 - n)"

fun be32 :: "byte list \<Rightarrow> nat" where
  "be32 (a # b # c # d # _) = unat a * 16777216 + unat b * 65536 + unat c * 256 + unat d"
| "be32 _ = 0"

definition be32_bytes :: "nat \<Rightarrow> byte list" where
  "be32_bytes h =
     [of_nat (h div 16777216 mod 256), of_nat (h div 65536 mod 256),
      of_nat (h div 256 mod 256), of_nat (h mod 256)]"

definition sha1_pad :: "byte list \<Rightarrow> byte list" where
  "sha1_pad m =
     m @ [0x80] @ replicate ((119 - length m mod 64) mod 64) 0
       @ be32_bytes ((8 * length m) div 4294967296) @ be32_bytes ((8 * length m) mod 4294967296)"

fun chunks :: "nat \<Rightarrow> nat \<Rightarrow> 'a list \<Rightarrow> 'a list list" where
  "chunks 0 k xs = []"
| "chunks (Suc n) k xs = take k xs # chunks n k (drop k xs)"

text \<open>
  The message schedule, from a window of the last sixteen words: word \<open>t\<close> is the
  rotation of \<open>W(t-3) XOR W(t-8) XOR W(t-14) XOR W(t-16)\<close>.
\<close>

fun schedule :: "nat \<Rightarrow> nat list \<Rightarrow> nat list" where
  "schedule (Suc k)
     (w0 # w1 # w2 # w3 # w4 # w5 # w6 # w7 # w8 # w9 # w10 # w11 # w12 # w13 # w14 # w15 # _) =
     w0 # schedule k
            [w1, w2, w3, w4, w5, w6, w7, w8, w9, w10, w11, w12, w13, w14, w15,
             rotl32 1 (w13 XOR w8 XOR w2 XOR w0)]"
| "schedule _ _ = []"

type_synonym sha_state = "nat \<times> nat \<times> nat \<times> nat \<times> nat"

definition sha1_f :: "nat \<Rightarrow> nat \<Rightarrow> nat \<Rightarrow> nat \<Rightarrow> nat" where
  "sha1_f t b c d =
     (if t < 20 then (b AND c) OR ((4294967295 - b) AND d)
      else if t < 40 then b XOR c XOR d
      else if t < 60 then (b AND c) OR (b AND d) OR (c AND d)
      else b XOR c XOR d)"

definition sha1_k :: "nat \<Rightarrow> nat" where
  "sha1_k t =
     (if t < 20 then 0x5A827999 else if t < 40 then 0x6ED9EBA1
      else if t < 60 then 0x8F1BBCDC else 0xCA62C1D6)"

fun rounds :: "nat \<Rightarrow> nat list \<Rightarrow> sha_state \<Rightarrow> sha_state" where
  "rounds t [] s = s"
| "rounds t (w # ws) (a, b, c, d, e) =
     rounds (t + 1) ws
       ((rotl32 5 a + sha1_f t b c d + e + sha1_k t + w) mod 4294967296,
        a, rotl32 30 b, c, d)"

definition sha1_block :: "sha_state \<Rightarrow> byte list \<Rightarrow> sha_state" where
  "sha1_block s blk =
     (case s of (h0, h1, h2, h3, h4) \<Rightarrow>
        (case rounds 0 (schedule 80 (map be32 (chunks 16 4 blk))) s of
           (a, b, c, d, e) \<Rightarrow>
             ((h0 + a) mod 4294967296, (h1 + b) mod 4294967296, (h2 + c) mod 4294967296,
              (h3 + d) mod 4294967296, (h4 + e) mod 4294967296)))"

definition sha1 :: "byte list \<Rightarrow> byte list" where
  "sha1 m =
     (let p = sha1_pad m in
      case foldl sha1_block (0x67452301, 0xEFCDAB89, 0x98BADCFE, 0x10325476, 0xC3D2E1F0)
             (chunks (length p div 64) 64 p) of
        (h0, h1, h2, h3, h4) \<Rightarrow> concat (map be32_bytes [h0, h1, h2, h3, h4]))"

definition hex_digit :: "nat \<Rightarrow> char" where
  "hex_digit n = ''0123456789abcdef'' ! n"

definition hex :: "byte list \<Rightarrow> string" where
  "hex bs = concat (map (\<lambda>b. [hex_digit (unat b div 16), hex_digit (unat b mod 16)]) bs)"

subsection \<open>The \<open>Hash\<close> object of the runtime\<close>

text \<open>
  \<open>createHash\<close> gives an empty hash; \<open>update\<close> feeds it the UTF-8 bytes of a string, after
  those it already has; \<open>digest("hex")\<close> is the lower-case hexadecimal digest of all of
  them.
\<close>

type_synonym hash = "byte list"

definition createHash :: hash where
  "createHash = []"

definition update :: "hash \<Rightarrow> jsstring \<Rightarrow> hash" where
  "update h s = h @ utf8 s"

definition digest_hex :: "hash \<Rightarrow> jsstring" where
  "digest_hex h = js (hex (sha1 h))"

section \<open>\<open>PublicInboxGitHelper.hashKey\<close>\<close>

definition hashKey :: "jsstring \<Rightarrow> jsstring" where
  "hashKey key =
     (let hash = createHash;
          hash = update hash (js ''blob '' @ js (decimal (byteLength key + 1)));
          hash = update hash ([0] @ key @ [10])
      in digest_hex hash)"

text \<open>
  What the specification says is hashed: \<open>"blob " + (byteLength(key)+1) + NUL + key + "\n"\<close>,
  as bytes.
\<close>

definition git_blob_input :: "jsstring \<Rightarrow> byte list" where
  "git_blob_input key =
     ascii ''blob '' @ ascii (decimal (length (utf8 key) + 1)) @ [0] @ utf8 key @ [10]"

section \<open>Data model\<close>

text \<open>
  \<open>IMailMetadata\<close> and the mirror state, as the code reads and writes them. A field that
  may be \<open>undefined\<close> is an option. The conditions of the code are JavaScript truth tests:
  \<open>undefined\<close>, the empty string, \<open>0\<close> and \<open>NaN\<close> fail them.
\<close>

type_synonym error = jsstring

record IMailMetadata =
  messageID :: jsstring
  pullRequestURL :: "jsstring option"
  originalCommit :: "jsstring option"
  issueCommentId :: "int option"

record IGitMailingListMirrorState =
  latestRevision :: "jsstring option"

record IParsedMBox =
  sender :: "jsstring option"
  headers :: "(jsstring \<times> jsstring) list"
  body :: jsstring

datatype note_value = MailMetadata IMailMetadata | MirrorState IGitMailingListMirrorState

definition truthy_string :: "jsstring option \<Rightarrow> bool" where
  "truthy_string s = (case s of None \<Rightarrow> False | Some v \<Rightarrow> v \<noteq> [])"

definition truthy_number :: "int option \<Rightarrow> bool" where
  "truthy_number n = (case n of None \<Rightarrow> False | Some v \<Rightarrow> v \<noteq> 0)"

text \<open>A counter that \<open>parseInt\<close> filled: \<open>None\<close> is \<open>NaN\<close>.\<close>

definition truthy_counter :: "nat option \<Rightarrow> bool" where
  "truthy_counter n = (case n of None \<Rightarrow> False | Some v \<Rightarrow> v \<noteq> 0)"

definition stateKey :: jsstring where
  "stateKey = js ''git@vger.kernel.org <-> GitGitGadget''"

definition firstRevision :: jsstring where
  "firstRevision = js ''cf3590b3a1ce08a52b01142307b8fcc089acb6a6''"

subsection \<open>The collaborators and the trace of calls\<close>

text \<open>
  Every call that leaves \<open>processMails\<close> is recorded, in order: the two \<open>git\<close> reads of the
  start, the history stream, the notes (the key-value store), the two parsers of
  \<open>send-mail\<close>, the three ways of \<open>GitHubGlue\<close> to post a comment, and the console.
\<close>

datatype event =
    GitLsTree
  | RevParse
  | GitLog jsstring
  | NotesGet jsstring
  | NotesSet jsstring note_value bool
  | ParseMBoxMessageIDAndReferences jsstring
  | ParseMBox jsstring
  | AddPRCommentReply jsstring int jsstring
  | AddPRCommitComment jsstring jsstring jsstring jsstring
  | AddPRComment jsstring jsstring
  | ConsoleLog jsstring

text \<open>
  The collaborators are parameters. Each of them may fail (a rejected promise), and what
  GitHub and the notes answer may depend on everything that happened before, so these two
  read the trace.
  \<^item> \<open>ls_tree\<close>: the output of \<open>git ls-tree -r <notesRef>:\<close>;
  \<^item> \<open>revParse\<close>: the commit of \<open>master\<close> in the public-inbox repository;
  \<^item> \<open>git_log\<close>: the lines \<open>git log -p --reverse <range>\<close> hands to the line handler, and
    the error the command ends with, if any;
  \<^item> \<open>parseMBoxMessageIDAndReferences\<close>, \<open>parseMBox\<close>: the parsers of \<open>send-mail\<close>;
  \<^item> \<open>comment_text\<close>: the Markdown of the comment (the header line and \<open>mbox2markdown\<close>);
    no property below depends on the text, so it is left open;
  \<^item> \<open>github\<close>: the \<open>id\<close> of the comment a \<open>GitHubGlue\<close> call created, or its failure;
  \<^item> \<open>notes_fault\<close>: whether a call of the notes fails;
  \<^item> \<open>workDir\<close>: the working directory of the notes.
\<close>

record env =
  ls_tree :: "error + jsstring"
  revParse :: "error + jsstring"
  git_log :: "jsstring \<Rightarrow> jsstring list \<times> error option"
  parseMBoxMessageIDAndReferences :: "jsstring \<Rightarrow> error + jsstring \<times> jsstring list"
  parseMBox :: "jsstring \<Rightarrow> error + IParsedMBox"
  comment_text :: "jsstring \<Rightarrow> IParsedMBox \<Rightarrow> jsstring"
  github :: "event list \<Rightarrow> event \<Rightarrow> error + int"
  notes_fault :: "event list \<Rightarrow> event \<Rightarrow> error option"
  workDir :: jsstring

text \<open>
  What outlives a handler: the notes, the state object of the helper, and the trace. A
  scan adds its own variables: the set of known keys, the buffer and the counter.
\<close>

record world =
  store :: "jsstring \<Rightarrow> note_value option"
  state :: IGitMailingListMirrorState
  trace :: "event list"

record scan = world +
  keys :: "jsstring set"
  buffer :: jsstring
  counter :: "nat option"

definition emit :: "event \<Rightarrow> 'a world_scheme \<Rightarrow> 'a world_scheme" where
  "emit ev w = w\<lparr>trace := trace w @ [ev]\<rparr>"

text \<open>
  Modelled from the spec: \<open>GitNotes.get\<close> and \<open>GitNotes.set\<close> (the file \<open>git-notes\<close> is not
  part of the sources at hand). Section 6 of the specification: \<open>get(key)\<close> gives the record
  or nothing, \<open>set(key, value, refresh)\<close> stores it durably. A failing call changes nothing.
\<close>

definition notes_get ::
  "env \<Rightarrow> jsstring \<Rightarrow> 'a world_scheme \<Rightarrow> (error + note_value option) \<times> 'a world_scheme" where
  "notes_get e key w =
     (case notes_fault e (trace w) (NotesGet key) of
        Some err \<Rightarrow> (Inl err, emit (NotesGet key) w)
      | None \<Rightarrow> (Inr (store w key), emit (NotesGet key) w))"

definition notes_set ::
  "env \<Rightarrow> jsstring \<Rightarrow> note_value \<Rightarrow> bool \<Rightarrow> 'a world_scheme \<Rightarrow> (error + unit) \<times> 'a world_scheme" where
  "notes_set e key v refresh w =
     (case notes_fault e (trace w) (NotesSet key v refresh) of
        Some err \<Rightarrow> (Inl err, emit (NotesSet key v refresh) w)
      | None \<Rightarrow> (Inr (), (emit (NotesSet key v refresh) w)\<lparr>store := (store w)(key \<mapsto> v)\<rparr>))"

definition github_call ::
  "env \<Rightarrow> event \<Rightarrow> 'a world_scheme \<Rightarrow> (error + int) \<times> 'a world_scheme" where
  "github_call e ev w = (github e (trace w) ev, emit ev w)"

section \<open>\<open>processMails\<close>\<close>

subsection \<open>\<open>seen\<close> and the choice of the pull request (lines 165 to 198)\<close>

definition seen :: "jsstring set \<Rightarrow> jsstring \<Rightarrow> bool" where
  "seen ks mid = (hashKey mid \<in> ks)"

definition startsWith :: "jsstring \<Rightarrow> jsstring \<Rightarrow> bool" where
  "startsWith s p = (take (length p) s = p)"

text \<open>The three variables of the loop: \<open>pullRequestURL\<close>, \<open>originalCommit\<close>, \<open>issueCommentId\<close>.\<close>

type_synonym target = "jsstring option \<times> jsstring option \<times> int option"

text \<open>
  The body of the loop, for one reference and what the notes gave for it. A note of the
  other kind has no \<open>pullRequestURL\<close>.
\<close>

definition adopt ::
  "(jsstring \<Rightarrow> bool) option \<Rightarrow> jsstring \<Rightarrow> note_value option \<Rightarrow> target \<Rightarrow> target" where
  "adopt prFilter reference data t =
     (case t of (url, commit0, cid) \<Rightarrow>
        (case data of
           Some (MailMetadata d) \<Rightarrow>
             if truthy_string (pullRequestURL d) then
               if (case prFilter of None \<Rightarrow> False
                   | Some p \<Rightarrow> \<not> p (the (pullRequestURL d))) then t
               else
                 let commit = (if startsWith reference (js ''pull'') then None
                               else originalCommit d)
                 in if \<not> truthy_string url \<or>
                       (\<not> truthy_string commit0 \<and> truthy_string commit) \<or>
                       (\<not> truthy_number cid \<and> truthy_number (issueCommentId d))
                    then (pullRequestURL d, commit, issueCommentId d)
                    else t
             else t
         | _ \<Rightarrow> t))"

fun resolve ::
  "env \<Rightarrow> (jsstring \<Rightarrow> bool) option \<Rightarrow> jsstring list \<Rightarrow> target \<Rightarrow> scan
     \<Rightarrow> (error + target) \<times> scan" where
  "resolve e prFilter [] t s = (Inr t, s)"
| "resolve e prFilter (reference # rest) t s =
     (case notes_get e reference s of
        (Inl err, s') \<Rightarrow> (Inl err, s')
      | (Inr data, s') \<Rightarrow> resolve e prFilter rest (adopt prFilter reference data t) s')"

subsection \<open>Delivery (lines 213 to 230)\<close>

definition deliver ::
  "env \<Rightarrow> jsstring \<Rightarrow> jsstring option \<Rightarrow> int option \<Rightarrow> jsstring \<Rightarrow> scan
     \<Rightarrow> (error + int option) \<times> scan" where
  "deliver e url commit cid comment s =
     (if truthy_number cid then
        (case github_call e (AddPRCommentReply url (the cid) comment) s of
           (Inl err, s') \<Rightarrow> (Inl err, s')
         | (Inr i, s') \<Rightarrow> (Inr (Some i), s'))
      else if truthy_string commit then
        (case github_call e (AddPRCommitComment url (the commit) (workDir e) comment) s of
           (Inl err, s') \<Rightarrow> (Inl err, s')
         | (Inr i, s') \<Rightarrow> (Inr (Some i), s'))
      else
        (case github_call e (AddPRComment url comment) s of
           (Inl err, s') \<Rightarrow> (Inl err, s')
         | (Inr i, s') \<Rightarrow> (Inr cid, s')))"

subsection \<open>\<open>mboxHandler\<close>\<close>

definition show_string :: "jsstring option \<Rightarrow> jsstring" where
  "show_string v = (case v of None \<Rightarrow> js ''undefined'' | Some x \<Rightarrow> x)"

definition show_number :: "int option \<Rightarrow> jsstring" where
  "show_number v =
     (case v of None \<Rightarrow> js ''undefined''
      | Some i \<Rightarrow> if i < 0 then js (CHR ''-'' # decimal (nat (- i))) else js (decimal (nat i)))"

definition message_line ::
  "jsstring \<Rightarrow> jsstring \<Rightarrow> jsstring \<Rightarrow> jsstring option \<Rightarrow> int option \<Rightarrow> jsstring" where
  "message_line mid mbox url commit cid =
     js ''Message-ID '' @ mid @ js '' (length '' @ js (decimal (length mbox))
       @ js '') for PR '' @ url @ js '', commit '' @ show_string commit
       @ js '', comment ID: '' @ show_number cid"

definition mboxHandler ::
  "env \<Rightarrow> (jsstring \<Rightarrow> bool) option \<Rightarrow> jsstring \<Rightarrow> jsstring list \<Rightarrow> jsstring \<Rightarrow> scan
     \<Rightarrow> (error + unit) \<times> scan" where
  "mboxHandler e prFilter mid references mbox s =
     (if seen (keys s) mid then (Inr (), s)
      else
        (case resolve e prFilter (filter (seen (keys s)) references) (None, None, None) s of
           (Inl err, s1) \<Rightarrow> (Inl err, s1)
         | (Inr (url, commit, cid), s1) \<Rightarrow>
             if \<not> truthy_string url then (Inr (), s1)
             else
               let s2 = emit (ConsoleLog (message_line mid mbox (the url) commit cid)) s1;
                   s3 = emit (ParseMBox mbox) s2
               in (case parseMBox e mbox of
                     Inl err \<Rightarrow> (Inl err, s3)
                   | Inr parsed \<Rightarrow>
                       (case deliver e (the url) commit cid (comment_text e mid parsed) s3 of
                          (Inl err, s4) \<Rightarrow> (Inl err, s4)
                        | (Inr cid', s4) \<Rightarrow>
                            (case notes_set e mid
                                    (MailMetadata \<lparr>messageID = mid, pullRequestURL = url,
                                       originalCommit = commit, issueCommentId = cid'\<rparr>)
                                    False s4 of
                               (Inl err, s5) \<Rightarrow> (Inl err, s5)
                             | (Inr _, s5) \<Rightarrow>
                                 (Inr (), s5\<lparr>keys := insert (hashKey mid) (keys s5)\<rparr>))))))"

subsection \<open>\<open>lineHandler\<close>\<close>

definition is_digit :: "unit16 \<Rightarrow> bool" where
  "is_digit u = (0x30 \<le> u \<and> u \<le> 0x39)"

definition strip_prefix :: "jsstring \<Rightarrow> jsstring \<Rightarrow> jsstring option" where
  "strip_prefix p s = (if startsWith s p then Some (drop (length p) s) else None)"

text \<open>
  \<open>line.match(/^@@ -(\d+,)?\d+ \+(\d+,)?(\d+)?/)\<close>: \<open>None\<close> when the line does not match,
  otherwise the third group, which is \<open>undefined\<close> (\<open>None\<close>) when it took part in no match.
  A run of digits before a character that is no digit is always the longest one, so the
  matcher reads the line from left to right.
\<close>

definition hunk_match :: "jsstring \<Rightarrow> jsstring option option" where
  "hunk_match line =
     (case strip_prefix (js ''@@ -'') line of
        None \<Rightarrow> None
      | Some r0 \<Rightarrow>
          let d1 = takeWhile is_digit r0; r1 = dropWhile is_digit r0 in
          if d1 = [] then None
          else
            let old_end =
                  (if startsWith r1 (js '','') then
                     (let d2 = takeWhile is_digit (drop 1 r1);
                          r2 = dropWhile is_digit (drop 1 r1)
                      in if d2 = [] then None else Some r2)
                   else Some r1)
            in (case old_end of
                  None \<Rightarrow> None
                | Some r3 \<Rightarrow>
                    (case strip_prefix (js '' +'') r3 of
                       None \<Rightarrow> None
                     | Some r4 \<Rightarrow>
                         let e1 = takeWhile is_digit r4; r5 = dropWhile is_digit r4 in
                         if e1 \<noteq> [] \<and> startsWith r5 (js '','') then
                           (let e2 = takeWhile is_digit (drop 1 r5)
                            in Some (if e2 = [] then None else Some e2))
                         else Some (if e1 = [] then None else Some e1))))"

text \<open>
  \<open>parseInt(match[3], 10)\<close>: \<open>NaN\<close> for \<open>undefined\<close>, the value of the digits otherwise (a
  double holds it exactly up to \<open>2^53\<close>; the naturals here have no such limit).
\<close>

definition parseInt :: "jsstring option \<Rightarrow> nat option" where
  "parseInt m =
     (case m of None \<Rightarrow> None
      | Some ds \<Rightarrow> Some (foldl (\<lambda>acc d. 10 * acc + (unat d - 48)) 0 ds))"

definition skipping :: "error \<Rightarrow> event" where
  "skipping reason = ConsoleLog (reason @ js '': skipping'')"

definition lineHandler ::
  "env \<Rightarrow> (jsstring \<Rightarrow> bool) option \<Rightarrow> jsstring \<Rightarrow> scan \<Rightarrow> scan" where
  "lineHandler e prFilter line s =
     (if startsWith line (js ''@@ '') then
        (case hunk_match line of
           None \<Rightarrow> s
         | Some m3 \<Rightarrow> s\<lparr>counter := parseInt m3, buffer := []\<rparr>)
      else if truthy_counter (counter s) then
        (let s1 = s\<lparr>buffer := buffer s @ drop 1 line @ [10]\<rparr>;
             s2 = s1\<lparr>counter := Some (the (counter s1) - 1)\<rparr>
         in if truthy_counter (counter s2) then s2
            else
              let s3 = emit (ParseMBoxMessageIDAndReferences (buffer s2)) s2 in
              (case parseMBoxMessageIDAndReferences e (buffer s2) of
                 Inl reason \<Rightarrow> emit (skipping reason) s3
               | Inr (mid, references) \<Rightarrow>
                   (case mboxHandler e prFilter mid references (buffer s2) s3 of
                      (Inl reason, s4) \<Rightarrow> emit (skipping reason) s4
                    | (Inr _, s4) \<Rightarrow> s4)))
      else s)"

subsection \<open>The scan\<close>

fun split_on :: "'a \<Rightarrow> 'a list \<Rightarrow> 'a list list" where
  "split_on c [] = [[]]"
| "split_on c (x # xs) =
     (if x = c then [] # split_on c xs
      else (case split_on c xs of [] \<Rightarrow> [[x]] | l # ls \<Rightarrow> (x # l) # ls))"

text \<open>
  The keys of one scan: every line of the listing, without its first 53 characters (mode,
  type and object name) and without the slashes of the fan-out.
\<close>

definition listed_keys :: "jsstring \<Rightarrow> jsstring set" where
  "listed_keys out = set (map (\<lambda>line. filter (\<lambda>c. c \<noteq> 0x2F) (drop 53 line)) (split_on 10 out))"

definition feed ::
  "env \<Rightarrow> (jsstring \<Rightarrow> bool) option \<Rightarrow> jsstring list \<Rightarrow> scan \<Rightarrow> scan" where
  "feed e prFilter ls s = foldl (\<lambda>s' line. lineHandler e prFilter line s') s ls"

definition start_scan :: "jsstring set \<Rightarrow> world \<Rightarrow> scan" where
  "start_scan ks w = world.extend w \<lparr>keys = ks, buffer = [], counter = Some 0\<rparr>"

definition processMails ::
  "env \<Rightarrow> (jsstring \<Rightarrow> bool) option \<Rightarrow> world \<Rightarrow> (error + bool) \<times> world" where
  "processMails e prFilter w =
     (let w1 = emit GitLsTree w in
      case ls_tree e of
        Inl err \<Rightarrow> (Inl err, w1)
      | Inr out \<Rightarrow>
          let w2 = (if \<not> truthy_string (latestRevision (state w1))
                    then w1\<lparr>state := (state w1)\<lparr>latestRevision := Some firstRevision\<rparr>\<rparr>
                    else w1);
              w3 = emit RevParse w2
          in (case revParse e of
                Inl err \<Rightarrow> (Inl err, w3)
              | Inr head \<Rightarrow>
                  if latestRevision (state w3) = Some head then (Inr False, w3)
                  else
                    let range = the (latestRevision (state w3)) @ js ''..'' @ head;
                        w4 = emit (GitLog range) w3;
                        s = feed e prFilter (fst (git_log e range))
                              (start_scan (listed_keys out) w4);
                        w5 = world.truncate s
                    in (case snd (git_log e range) of
                          Some err \<Rightarrow> (Inl err, w5)
                        | None \<Rightarrow>
                            let w6 = w5\<lparr>state := (state w5)\<lparr>latestRevision := Some head\<rparr>\<rparr>
                            in (case notes_set e stateKey (MirrorState (state w6)) True w6 of
                                  (Inl err, w7) \<Rightarrow> (Inl err, w7)
                                | (Inr _, w7) \<Rightarrow> (Inr True, w7)))))"

section \<open>Reading a trace\<close>

text \<open>The comments posted, the notes written and the messages handed to the parser.\<close>

fun is_delivery :: "event \<Rightarrow> bool" where
  "is_delivery (AddPRCommentReply _ _ _) = True"
| "is_delivery (AddPRCommitComment _ _ _ _) = True"
| "is_delivery (AddPRComment _ _) = True"
| "is_delivery _ = False"

definition deliveries :: "event list \<Rightarrow> event list" where
  "deliveries tr = filter is_delivery tr"

fun is_write :: "event \<Rightarrow> bool" where
  "is_write (NotesSet _ _ _) = True"
| "is_write _ = False"

definition writes :: "event list \<Rightarrow> event list" where
  "writes tr = filter is_write tr"

fun is_emission :: "event \<Rightarrow> bool" where
  "is_emission (ParseMBoxMessageIDAndReferences _) = True"
| "is_emission _ = False"

definition emitted :: "event list \<Rightarrow> event list" where
  "emitted tr = filter is_emission tr"

text \<open>
  The call that the precedence of the specification selects for a target: a reply when
  the comment is known, else a comment on the commit when that is known, else a comment
  on the pull request.
\<close>

definition chosen_delivery ::
  "env \<Rightarrow> jsstring \<Rightarrow> jsstring option \<Rightarrow> int option \<Rightarrow> jsstring \<Rightarrow> event" where
  "chosen_delivery e url commit cid text =
     (if truthy_number cid then AddPRCommentReply url (the cid) text
      else if truthy_string commit then AddPRCommitComment url (the commit) (workDir e) text
      else AddPRComment url text)"


text \<open>The cursor a scan starts from: the stored revision, or the fixed first one.\<close>

definition cursor :: "world \<Rightarrow> jsstring" where
  "cursor w =
     (if truthy_string (latestRevision (state w)) then the (latestRevision (state w))
      else firstRevision)"




section \<open>Scenarios\<close>

text \<open>Concrete collaborators, notes and messages, on which the theorems below are run.\<close>

text \<open>
  Three messages \<open>a\<close>, \<open>b\<close> and \<open>c\<close> of one pull request are in the notes: \<open>a\<close> with
  the pull request only, \<open>b\<close> with a comment, \<open>c\<close> with a commit. The listing of the notes
  holds their three keys.
\<close>

definition url5 :: jsstring where
  "url5 = js ''https://github.com/gitgitgadget/git/pull/5''"

definition record_A :: IMailMetadata where
  "record_A = \<lparr>messageID = js ''a'', pullRequestURL = Some url5, originalCommit = None,
                issueCommentId = None\<rparr>"

definition record_B :: IMailMetadata where
  "record_B = \<lparr>messageID = js ''b'', pullRequestURL = Some url5, originalCommit = None,
                issueCommentId = Some 17\<rparr>"

definition record_C :: IMailMetadata where
  "record_C = \<lparr>messageID = js ''c'', pullRequestURL = Some url5,
                originalCommit = Some (js ''c0ffee''), issueCommentId = None\<rparr>"

definition notes0 :: "jsstring \<Rightarrow> note_value option" where
  "notes0 = [js ''a'' \<mapsto> MailMetadata record_A, js ''b'' \<mapsto> MailMetadata record_B,
             js ''c'' \<mapsto> MailMetadata record_C]"

definition listing0 :: jsstring where
  "listing0 =
     js ''100644 blob e69de29bb2d1d6434b8b29ae775ad8c2e48c5391'' @ [9]
       @ js ''78/981922613b2afb6025042ff6bd878ac1994e85'' @ [10]
     @ js ''100644 blob e69de29bb2d1d6434b8b29ae775ad8c2e48c5391'' @ [9]
       @ js ''61/780798228d17af2d34fce4cfbdf35556832472'' @ [10]
     @ js ''100644 blob e69de29bb2d1d6434b8b29ae775ad8c2e48c5391'' @ [9]
       @ js ''f2/ad6c76f0115a6ba5b00456a849810e7ec0af20'' @ [10]"

text \<open>
  The archive is one commit ahead: it adds the message \<open>m\<close>, of two lines, which refers
  to \<open>a\<close>, \<open>b\<close> and \<open>c\<close>.
\<close>

definition head1 :: jsstring where
  "head1 = js ''1111111111111111111111111111111111111111''"

definition diff0 :: "jsstring list" where
  "diff0 = [js ''commit 1111111111111111111111111111111111111111'',
            js ''+++ b/28/ce6a8b26aa170e1de65536fe8abe1832bd3242'',
            js ''@@ -0,0 +1,2 @@'',
            js ''+Message-ID: <m>'',
            js ''+References: <a> <b> <c>'']"

definition mail0 :: jsstring where
  "mail0 = js ''Message-ID: <m>'' @ [10] @ js ''References: <a> <b> <c>'' @ [10]"

definition text0 :: jsstring where
  "text0 = js ''On the Git mailing list, Somebody wrote''"

definition env0 :: env where
  "env0 = \<lparr>ls_tree = Inr listing0, revParse = Inr head1,
            git_log = (\<lambda>range. (diff0, None)),
            parseMBoxMessageIDAndReferences =
              (\<lambda>mbox. if mbox = mail0 then Inr (js ''m'', [js ''a'', js ''b'', js ''c''])
                       else Inl (js ''Error: no Message-ID'')),
            parseMBox = (\<lambda>mbox. Inr \<lparr>sender = None, headers = [], body = []\<rparr>),
            comment_text = (\<lambda>mid parsed. text0),
            github = (\<lambda>tr ev. Inr 42),
            notes_fault = (\<lambda>tr ev. None),
            workDir = js ''.''\<rparr>"

text \<open>The same, with GitHub refusing every call, and with the notes refusing every read.\<close>

definition env_down :: env where
  "env_down = env0\<lparr>github := (\<lambda>tr ev. Inl (js ''HttpError: 502''))\<rparr>"

definition env_unread :: env where
  "env_unread =
     env0\<lparr>notes_fault :=
            (\<lambda>tr ev. case ev of NotesGet k \<Rightarrow> Some (js ''Error: cannot read notes'')
                      | _ \<Rightarrow> None)\<rparr>"

definition env_unlisted :: env where
  "env_unlisted = env0\<lparr>ls_tree := Inl (js ''fatal: not a tree object'')\<rparr>"

text \<open>
  Three more failures: the notes refuse the record of every message (and the history
  brings the message \<open>m\<close> twice, in two commits), the notes refuse the cursor, and the
  parser of \<open>send-mail\<close> rejects every mail.
\<close>

definition diff1 :: "jsstring list" where
  "diff1 = [js ''commit 2222222222222222222222222222222222222222'',
            js ''+++ b/28/ce6a8b26aa170e1de65536fe8abe1832bd3242'',
            js ''@@ -0,0 +1,2 @@'',
            js ''+Message-ID: <m>'',
            js ''+References: <a> <b> <c>'']
           @ diff0"

definition env_unwritten :: env where
  "env_unwritten =
     env0\<lparr>git_log := (\<lambda>range. (diff1, None)),
          notes_fault :=
            (\<lambda>tr ev. case ev of
                        NotesSet k (MailMetadata d) b \<Rightarrow> Some (js ''Error: cannot write notes'')
                      | _ \<Rightarrow> None)\<rparr>"

definition env_uncursor :: env where
  "env_uncursor =
     env0\<lparr>notes_fault :=
            (\<lambda>tr ev. case ev of
                        NotesSet k (MirrorState st) b \<Rightarrow> Some (js ''Error: cannot write notes'')
                      | _ \<Rightarrow> None)\<rparr>"

definition env_unparsed :: env where
  "env_unparsed = env0\<lparr>parseMBox := (\<lambda>mbox. Inl (js ''Error: cannot parse the mail''))\<rparr>"

definition world0 :: world where
  "world0 = \<lparr>store = notes0, state = \<lparr>latestRevision = None\<rparr>, trace = []\<rparr>"

definition world1 :: world where
  "world1 = \<lparr>store = notes0, state = \<lparr>latestRevision = Some head1\<rparr>, trace = []\<rparr>"

definition scan0 :: scan where
  "scan0 = start_scan {hashKey (js ''a''), hashKey (js ''b''), hashKey (js ''c'')} world0"


definition line2 :: jsstring where
  "line2 = js ''+References: <a> <b> <c>''"

definition scan1 :: scan where
  "scan1 = scan0\<lparr>buffer := js ''Message-ID: <m>'' @ [10], counter := Some 1\<rparr>"

definition scan2 :: scan where
  "scan2 = scan0\<lparr>buffer := mail0, counter := Some 0,
                  trace := [ParseMBoxMessageIDAndReferences mail0, NotesGet (js ''a''),
                            NotesGet (js ''b''), NotesGet (js ''c'')]\<rparr>"

text \<open>The range of that scan, the record it writes for \<open>m\<close>, and the cursor it stores.\<close>

definition range0 :: jsstring where
  "range0 = firstRevision @ js ''..'' @ head1"

definition record_M :: IMailMetadata where
  "record_M = \<lparr>messageID = js ''m'', pullRequestURL = Some url5,
                originalCommit = Some (js ''c0ffee''), issueCommentId = Some 42\<rparr>"

definition cursor_note :: note_value where
  "cursor_note = MirrorState \<lparr>latestRevision = Some head1\<rparr>"

section \<open>The key of a message\<close>

lemma utf8_ascii_Cons: "u < 0x80 \<Longrightarrow> utf8 (u # us) = ucast u # utf8 us"
proof (cases us)
  case Nil
  assume "u < 0x80"
  then show ?thesis using Nil
    by (auto simp: is_high_surrogate_def is_low_surrogate_def utf8_code_point_def
        word_less_nat_alt word_le_nat_alt)
next
  case (Cons v vs)
  assume "u < 0x80"
  then show ?thesis using Cons
    by (auto simp: is_high_surrogate_def is_low_surrogate_def utf8_code_point_def
        word_less_nat_alt word_le_nat_alt)
qed

lemma utf8_snoc_newline: "utf8 (us @ [10]) = utf8 us @ [10]"
proof (induction us rule: utf8.induct)
  case 1
  show ?case by (simp add: is_high_surrogate_def is_low_surrogate_def utf8_code_point_def)
next
  case (2 u)
  show ?case by (simp add: is_high_surrogate_def is_low_surrogate_def utf8_code_point_def)
next
  case (3 u v us)
  then show ?case by simp
qed

lemma utf8_js:
  "\<forall>c\<in>set s. of_char c < (128::nat) \<Longrightarrow> utf8 (js s @ t) = ascii s @ utf8 t"
proof (induction s)
  case Nil
  show ?case by (simp add: js_def ascii_def)
next
  case (Cons c s)
  then have c: "of_char c < (128::nat)" and IH: "utf8 (js s @ t) = ascii s @ utf8 t"
    by simp_all
  have "(of_nat (of_char c) :: unit16) < 0x80"
    using c by (simp add: word_less_nat_alt unat_of_nat)
  then have "utf8 (of_nat (of_char c) # (js s @ t))
             = ucast (of_nat (of_char c) :: unit16) # utf8 (js s @ t)"
    by (rule utf8_ascii_Cons)
  moreover have "(ucast (of_nat (of_char c) :: unit16) :: byte) = of_nat (of_char c)"
    using c by (simp add: unsigned_of_nat take_bit_nat_eq_self)
  ultimately show ?case using IH by (simp add: js_def ascii_def)
qed

lemma decimal_digits: "\<forall>c\<in>set (decimal n). of_char c < (128::nat)"
proof (induction n rule: decimal.induct)
  case (1 n)
  show ?case
  proof (cases "n < 10")
    case True
    then show ?thesis by (subst decimal.simps) simp
  next
    case False
    have "n mod 10 < 10" by simp
    with False 1 show ?thesis by (subst decimal.simps) simp
  qed
qed

lemma hashKey_bytes: "hashKey key = js (hex (sha1 (git_blob_input key)))"
proof -
  have a: "utf8 (js ''blob '' @ js (decimal (byteLength key + 1)))
           = ascii ''blob '' @ ascii (decimal (byteLength key + 1))"
    using utf8_js [of "''blob ''" "js (decimal (byteLength key + 1))"]
          utf8_js [OF decimal_digits, of "byteLength key + 1" "[]"]
    by simp
  have b: "utf8 ([0] @ key @ [10]) = [0] @ utf8 key @ [10]"
    using utf8_ascii_Cons [of 0 "key @ [10]"] by (simp add: utf8_snoc_newline)
  show ?thesis
    by (simp only: hashKey_def Let_def createHash_def update_def digest_hex_def a b
        git_blob_input_def append_Nil append_assoc)
      (simp only: byteLength_def)
qed

text \<open>
  Claim C3. For every key (empty, ASCII, or with characters of several bytes, a lone
  surrogate included), \<open>hashKey\<close> is the hexadecimal SHA-1 digest of the bytes
  \<open>"blob "\<close>, the decimal of the key's UTF-8 length plus one, a NUL, the UTF-8 bytes of the
  key, and a newline: the name Git gives the blob that holds the key and a newline. The two
  \<open>update\<close> calls of the code, the length counted in bytes and not in code units, and the
  encoding of the NUL and the newline around the key all agree with it.
\<close>

theorem hashKey_git_blob: "hashKey key = js (hex (sha1 (git_blob_input key)))"
  by (rule hashKey_bytes)

section \<open>The handler of one message\<close>

lemma emit_world [simp]:
  "trace (emit ev w) = trace w @ [ev]" "store (emit ev w) = store w" "state (emit ev w) = state w"
  by (simp_all add: emit_def)

lemma emit_scan [simp]:
  "keys (emit ev s) = keys s" "buffer (emit ev s) = buffer s" "counter (emit ev s) = counter s"
  by (simp_all add: emit_def)

lemma notes_get_snd [simp]: "snd (notes_get e k w) = emit (NotesGet k) w"
  by (simp add: notes_get_def split: option.splits)

lemma notes_get_ok:
  "notes_fault e (trace w) (NotesGet k) = None \<Longrightarrow> notes_get e k w = (Inr (store w k), emit (NotesGet k) w)"
  by (simp add: notes_get_def)

lemma resolve_frame:
  "resolve e f rs t s = (r, s') \<Longrightarrow>
     \<exists>n. s' = s\<lparr>trace := trace s @ map NotesGet (take n rs)\<rparr>"
proof (induction rs arbitrary: t s)
  case Nil
  then show ?case by simp
next
  case (Cons x rs)
  show ?case
  proof (cases "fst (notes_get e x s)")
    case (Inl err)
    then have "notes_get e x s = (Inl err, emit (NotesGet x) s)"
      by (metis notes_get_snd prod.collapse)
    with Cons.prems have "s' = emit (NotesGet x) s" by simp
    then have "s' = s\<lparr>trace := trace s @ map NotesGet (take 1 (x # rs))\<rparr>"
      by (simp add: emit_def)
    then show ?thesis by blast
  next
    case (Inr data)
    then have g: "notes_get e x s = (Inr data, emit (NotesGet x) s)"
      by (metis notes_get_snd prod.collapse)
    with Cons.prems have "resolve e f rs (adopt f x data t) (emit (NotesGet x) s) = (r, s')"
      by simp
    from Cons.IH [OF this] obtain n where
      "s' = (emit (NotesGet x) s)\<lparr>trace := trace (emit (NotesGet x) s) @ map NotesGet (take n rs)\<rparr>"
      by blast
    then have "s' = s\<lparr>trace := trace s @ map NotesGet (take (Suc n) (x # rs))\<rparr>"
      by (simp add: emit_def)
    then show ?thesis by blast
  qed
qed

lemma resolve_keep:
  assumes "resolve e f rs t s = (r, s')"
  shows "keys s' = keys s" "store s' = store s" "state s' = state s"
    "buffer s' = buffer s" "counter s' = counter s"
    "deliveries (trace s') = deliveries (trace s)" "writes (trace s') = writes (trace s)"
    "emitted (trace s') = emitted (trace s)"
proof -
  from resolve_frame [OF assms] obtain n where
    s': "s' = s\<lparr>trace := trace s @ map NotesGet (take n rs)\<rparr>" by blast
  have "filter is_delivery (map NotesGet xs) = []" for xs by (induction xs) simp_all
  moreover have "filter is_write (map NotesGet xs) = []" for xs by (induction xs) simp_all
  moreover have "filter is_emission (map NotesGet xs) = []" for xs by (induction xs) simp_all
  ultimately show "keys s' = keys s" "store s' = store s" "state s' = state s"
    "buffer s' = buffer s" "counter s' = counter s"
    "deliveries (trace s') = deliveries (trace s)" "writes (trace s') = writes (trace s)"
    "emitted (trace s') = emitted (trace s)"
    using s' by (simp_all add: deliveries_def writes_def emitted_def)
qed

lemma is_delivery_chosen [simp]: "is_delivery (chosen_delivery e url commit cid text)"
  by (simp add: chosen_delivery_def)

lemma deliver_frame:
  "deliver e url commit cid text s = (r, s') \<Longrightarrow> s' = emit (chosen_delivery e url commit cid text) s"
  by (auto simp: deliver_def github_call_def chosen_delivery_def split: if_splits sum.splits)

lemma notes_set_trace:
  "notes_set e k v b w = (r, w') \<Longrightarrow> trace w' = trace w @ [NotesSet k v b]"
  by (auto simp: notes_set_def split: option.splits)

lemma notes_set_keys:
  "notes_set e k v b s = (r, s') \<Longrightarrow> keys s' = keys s \<and> buffer s' = buffer s \<and> counter s' = counter s \<and> state s' = state s"
  by (auto simp: notes_set_def emit_def split: option.splits)

lemma mboxHandler_seen: "seen (keys s) mid \<Longrightarrow> mboxHandler e f mid refs mbox s = (Inr (), s)"
  by (simp add: mboxHandler_def)

lemma deliver_result:
  "deliver e url commit cid text s = (Inr cid', s') \<Longrightarrow>
     \<exists>i. github e (trace s) (chosen_delivery e url commit cid text) = Inr i \<and>
         cid' = (if truthy_number cid \<or> truthy_string commit then Some i else cid)"
  by (auto simp: deliver_def github_call_def chosen_delivery_def split: if_splits sum.splits)

lemma deliver_error:
  "deliver e url commit cid text s = (Inl err, s') \<Longrightarrow>
     github e (trace s) (chosen_delivery e url commit cid text) = Inl err"
  by (auto simp: deliver_def github_call_def chosen_delivery_def split: if_splits sum.splits)

lemma notes_set_cases:
  assumes "notes_set e k v b w = (r, w')"
  shows "(\<exists>err. notes_fault e (trace w) (NotesSet k v b) = Some err \<and> r = Inl err
            \<and> w' = emit (NotesSet k v b) w)
       \<or> (notes_fault e (trace w) (NotesSet k v b) = None \<and> r = Inr ()
            \<and> w' = (emit (NotesSet k v b) w)\<lparr>store := (store w)(k \<mapsto> v)\<rparr>)"
  using assms by (auto simp: notes_set_def split: option.splits)

text \<open>The seven ways through \<open>mboxHandler\<close>.\<close>

lemma mboxHandler_cases [case_names known get_failed no_target parse_failed delivery_failed
    write_failed recorded]:
  fixes e f mid refs mbox s
  defines "R \<equiv> mboxHandler e f mid refs mbox s"
  defines "known \<equiv> filter (seen (keys s)) refs"
  obtains
    "seen (keys s) mid" "R = (Inr (), s)"
  | err s1 where "\<not> seen (keys s) mid"
      "resolve e f known (None, None, None) s = (Inl err, s1)" "R = (Inl err, s1)"
  | url commit cid s1 where "\<not> seen (keys s) mid"
      "resolve e f known (None, None, None) s = (Inr (url, commit, cid), s1)"
      "\<not> truthy_string url" "R = (Inr (), s1)"
  | u commit cid s1 err where "\<not> seen (keys s) mid"
      "resolve e f known (None, None, None) s = (Inr (Some u, commit, cid), s1)" "u \<noteq> []"
      "parseMBox e mbox = Inl err"
      "R = (Inl err, emit (ParseMBox mbox)
                       (emit (ConsoleLog (message_line mid mbox u commit cid)) s1))"
  | u commit cid s1 parsed err s3 where "\<not> seen (keys s) mid"
      "resolve e f known (None, None, None) s = (Inr (Some u, commit, cid), s1)" "u \<noteq> []"
      "parseMBox e mbox = Inr parsed"
      "s3 = emit (ParseMBox mbox) (emit (ConsoleLog (message_line mid mbox u commit cid)) s1)"
      "github e (trace s3) (chosen_delivery e u commit cid (comment_text e mid parsed)) = Inl err"
      "R = (Inl err, emit (chosen_delivery e u commit cid (comment_text e mid parsed)) s3)"
  | u commit cid s1 parsed i s3 s4 rcd err where "\<not> seen (keys s) mid"
      "resolve e f known (None, None, None) s = (Inr (Some u, commit, cid), s1)" "u \<noteq> []"
      "parseMBox e mbox = Inr parsed"
      "s3 = emit (ParseMBox mbox) (emit (ConsoleLog (message_line mid mbox u commit cid)) s1)"
      "github e (trace s3) (chosen_delivery e u commit cid (comment_text e mid parsed)) = Inr i"
      "s4 = emit (chosen_delivery e u commit cid (comment_text e mid parsed)) s3"
      "rcd = MailMetadata \<lparr>messageID = mid, pullRequestURL = Some u, originalCommit = commit,
         issueCommentId = (if truthy_number cid \<or> truthy_string commit then Some i else cid)\<rparr>"
      "notes_fault e (trace s4) (NotesSet mid rcd False) = Some err"
      "R = (Inl err, emit (NotesSet mid rcd False) s4)"
  | u commit cid s1 parsed i s3 s4 rcd where "\<not> seen (keys s) mid"
      "resolve e f known (None, None, None) s = (Inr (Some u, commit, cid), s1)" "u \<noteq> []"
      "parseMBox e mbox = Inr parsed"
      "s3 = emit (ParseMBox mbox) (emit (ConsoleLog (message_line mid mbox u commit cid)) s1)"
      "github e (trace s3) (chosen_delivery e u commit cid (comment_text e mid parsed)) = Inr i"
      "s4 = emit (chosen_delivery e u commit cid (comment_text e mid parsed)) s3"
      "rcd = MailMetadata \<lparr>messageID = mid, pullRequestURL = Some u, originalCommit = commit,
         issueCommentId = (if truthy_number cid \<or> truthy_string commit then Some i else cid)\<rparr>"
      "notes_fault e (trace s4) (NotesSet mid rcd False) = None"
      "R = (Inr (), (emit (NotesSet mid rcd False) s4)
                      \<lparr>store := (store s4)(mid \<mapsto> rcd),
                        keys := insert (hashKey mid) (keys s4)\<rparr>)"
proof (cases "seen (keys s) mid")
  case True
  then have "R = (Inr (), s)" by (simp add: R_def mboxHandler_seen)
  with True that(1) show ?thesis by blast
next
  case unseen: False
  obtain r s1 where res: "resolve e f known (None, None, None) s = (r, s1)"
    by (cases "resolve e f known (None, None, None) s")
  show ?thesis
  proof (cases r)
    case (Inl err)
    with unseen res have "R = (Inl err, s1)" by (simp add: R_def mboxHandler_def known_def)
    with unseen res Inl that(2) show ?thesis by blast
  next
    case (Inr t)
    obtain url commit cid where t: "t = (url, commit, cid)" by (cases t)
    show ?thesis
    proof (cases "truthy_string url")
      case False
      with unseen res Inr t have "R = (Inr (), s1)"
        by (simp add: R_def mboxHandler_def known_def)
      with unseen res Inr t False that(3) show ?thesis by blast
    next
      case True
      then obtain u where u: "url = Some u" "u \<noteq> []"
        by (auto simp: truthy_string_def split: option.splits)
      let ?s3 = "emit (ParseMBox mbox) (emit (ConsoleLog (message_line mid mbox u commit cid)) s1)"
      have res': "resolve e f known (None, None, None) s = (Inr (Some u, commit, cid), s1)"
        using res Inr t u by simp
      show ?thesis
      proof (cases "parseMBox e mbox")
        case (Inl err)
        with unseen res' True u have "R = (Inl err, ?s3)"
          by (simp add: R_def mboxHandler_def known_def Let_def)
        with unseen res' u Inl that(4) show ?thesis by blast
      next
        case parsed: (Inr parsed)
        let ?text = "comment_text e mid parsed"
        let ?ev = "chosen_delivery e u commit cid ?text"
        obtain r4 s4 where d: "deliver e u commit cid ?text ?s3 = (r4, s4)"
          by (cases "deliver e u commit cid ?text ?s3")
        have s4: "s4 = emit ?ev ?s3" using deliver_frame [OF d] .
        show ?thesis
        proof (cases r4)
          case (Inl err)
          with d have "github e (trace ?s3) ?ev = Inl err" using deliver_error by blast
          moreover have "R = (Inl err, emit ?ev ?s3)"
            using unseen res' True u parsed d Inl s4
            by (simp add: R_def mboxHandler_def known_def Let_def)
          ultimately show ?thesis using unseen res' u parsed that(5) by blast
        next
          case (Inr cid')
          with d deliver_result obtain i where
            i: "github e (trace ?s3) ?ev = Inr i"
               "cid' = (if truthy_number cid \<or> truthy_string commit then Some i else cid)"
            by blast
          let ?rec = "MailMetadata \<lparr>messageID = mid, pullRequestURL = Some u,
            originalCommit = commit,
            issueCommentId = (if truthy_number cid \<or> truthy_string commit then Some i else cid)\<rparr>"
          obtain r5 s5 where w: "notes_set e mid ?rec False s4 = (r5, s5)"
            by (cases "notes_set e mid ?rec False s4")
          have unfold: "R = (case (r5, s5) of (Inl err, s5) \<Rightarrow> (Inl err, s5)
                             | (Inr _, s5) \<Rightarrow> (Inr (), s5\<lparr>keys := insert (hashKey mid) (keys s5)\<rparr>))"
            using unseen res' True u parsed d Inr i(2) w
            by (simp add: R_def mboxHandler_def known_def Let_def)
          from notes_set_cases [OF w] show ?thesis
          proof
            assume "\<exists>err. notes_fault e (trace s4) (NotesSet mid ?rec False) = Some err \<and>
                      r5 = Inl err \<and> s5 = emit (NotesSet mid ?rec False) s4"
            then obtain err where
              "notes_fault e (trace s4) (NotesSet mid ?rec False) = Some err"
              "r5 = Inl err" "s5 = emit (NotesSet mid ?rec False) s4" by blast
            moreover from this unfold have "R = (Inl err, emit (NotesSet mid ?rec False) s4)"
              by simp
            ultimately show ?thesis
              using that(6) [OF unseen res' u(2) parsed refl i(1) s4 refl] by simp
          next
            assume ok: "notes_fault e (trace s4) (NotesSet mid ?rec False) = None \<and> r5 = Inr () \<and>
                    s5 = (emit (NotesSet mid ?rec False) s4)\<lparr>store := (store s4)(mid \<mapsto> ?rec)\<rparr>"
            with unfold have "R = (Inr (), (emit (NotesSet mid ?rec False) s4)
                      \<lparr>store := (store s4)(mid \<mapsto> ?rec), keys := insert (hashKey mid) (keys s4)\<rparr>)"
              by (simp add: emit_def)
            with ok show ?thesis
              using that(7) [OF unseen res' u(2) parsed refl i(1) s4 refl] by simp
          qed
        qed
      qed
    qed
  qed
qed

lemma deliveries_simps [simp]:
  "deliveries [] = []" "deliveries (xs @ ys) = deliveries xs @ deliveries ys"
  "deliveries (ev # xs) = (if is_delivery ev then ev # deliveries xs else deliveries xs)"
  by (simp_all add: deliveries_def)

lemma writes_simps [simp]:
  "writes [] = []" "writes (xs @ ys) = writes xs @ writes ys"
  "writes (ev # xs) = (if is_write ev then ev # writes xs else writes xs)"
  by (simp_all add: writes_def)

lemma emitted_simps [simp]:
  "emitted [] = []" "emitted (xs @ ys) = emitted xs @ emitted ys"
  "emitted (ev # xs) = (if is_emission ev then ev # emitted xs else emitted xs)"
  by (simp_all add: emitted_def)

lemma chosen_not_other [simp]:
  "\<not> is_write (chosen_delivery e u commit cid text)"
  "\<not> is_emission (chosen_delivery e u commit cid text)"
  by (simp_all add: chosen_delivery_def)

lemma mboxHandler_keys_mono: "keys s \<subseteq> keys (snd (mboxHandler e f mid refs mbox s))"
proof (cases rule: mboxHandler_cases [where s = s and mid = mid and e = e and f = f and refs = refs and mbox = mbox])
qed (auto dest: resolve_keep(1))



text \<open>The ways through \<open>lineHandler\<close>.\<close>

lemma lineHandler_cases [case_names header ignored collecting unparsable failed handled]:
  fixes e f line s
  defines "R \<equiv> lineHandler e f line s"
  defines "msg \<equiv> buffer s @ drop 1 line @ [10]"
  defines "s3 \<equiv> emit (ParseMBoxMessageIDAndReferences msg) (s\<lparr>buffer := msg, counter := Some 0\<rparr>)"
  obtains
    m3 where "startsWith line (js ''@@ '')" "hunk_match line = Some m3"
      "R = s\<lparr>counter := parseInt m3, buffer := []\<rparr>"
  | "startsWith line (js ''@@ '') \<and> hunk_match line = None \<or>
     \<not> startsWith line (js ''@@ '') \<and> \<not> truthy_counter (counter s)" "R = s"
  | k where "\<not> startsWith line (js ''@@ '')" "counter s = Some (Suc (Suc k))"
      "R = s\<lparr>buffer := msg, counter := Some (Suc k)\<rparr>"
  | reason where "\<not> startsWith line (js ''@@ '')" "counter s = Some 1"
      "parseMBoxMessageIDAndReferences e msg = Inl reason" "R = emit (skipping reason) s3"
  | mid refs reason s4 where "\<not> startsWith line (js ''@@ '')" "counter s = Some 1"
      "parseMBoxMessageIDAndReferences e msg = Inr (mid, refs)"
      "mboxHandler e f mid refs msg s3 = (Inl reason, s4)" "R = emit (skipping reason) s4"
  | mid refs s4 where "\<not> startsWith line (js ''@@ '')" "counter s = Some 1"
      "parseMBoxMessageIDAndReferences e msg = Inr (mid, refs)"
      "mboxHandler e f mid refs msg s3 = (Inr (), s4)" "R = s4"
proof (cases "startsWith line (js ''@@ '')")
  case True
  then show ?thesis using that(1,2) by (cases "hunk_match line") (auto simp: R_def lineHandler_def)
next
  case nohdr: False
  show ?thesis
  proof (cases "truthy_counter (counter s)")
    case False
    with nohdr that(2) show ?thesis by (simp add: R_def lineHandler_def)
  next
    case True
    then obtain n where n: "counter s = Some (Suc n)"
      by (cases "counter s") (auto simp: truthy_counter_def gr0_conv_Suc)
    show ?thesis
    proof (cases n)
      case (Suc k)
      with nohdr n have "R = s\<lparr>buffer := msg, counter := Some (Suc k)\<rparr>"
        by (simp add: R_def lineHandler_def Let_def truthy_counter_def msg_def)
      with nohdr n Suc that(3) show ?thesis by blast
    next
      case 0
      with n have c1: "counter s = Some 1" by simp
      have unfold: "R = (case parseMBoxMessageIDAndReferences e msg of
                 Inl reason \<Rightarrow> emit (skipping reason) s3
               | Inr (mid, references) \<Rightarrow>
                   (case mboxHandler e f mid references msg s3 of
                      (Inl reason, s4) \<Rightarrow> emit (skipping reason) s4
                    | (Inr _, s4) \<Rightarrow> s4))"
        using nohdr c1
        by (simp add: R_def lineHandler_def Let_def truthy_counter_def msg_def s3_def
            split: sum.splits prod.splits)
      show ?thesis
      proof (cases "parseMBoxMessageIDAndReferences e msg")
        case (Inl reason)
        with unfold nohdr c1 that(4) show ?thesis by simp
      next
        case (Inr p)
        obtain mid refs where p: "p = (mid, refs)" by (cases p)
        obtain r4 s4 where h: "mboxHandler e f mid refs msg s3 = (r4, s4)"
          by (cases "mboxHandler e f mid refs msg s3")
        show ?thesis
        proof (cases r4)
          case (Inl reason)
          with unfold Inr p h nohdr c1 that(5) show ?thesis by simp
        next
          case (Inr u)
          with unfold \<open>parseMBoxMessageIDAndReferences e msg = Inr p\<close> p h nohdr c1 that(6)
          show ?thesis by simp
        qed
      qed
    qed
  qed
qed

lemma lineHandler_keys_mono: "keys s \<subseteq> keys (lineHandler e f line s)"
proof (cases rule: lineHandler_cases [where line = line and s = s and e = e and f = f])
  case (failed mid refs reason s4)
  with mboxHandler_keys_mono [where s = "emit (ParseMBoxMessageIDAndReferences (buffer s @ drop 1 line @ [10])) (s\<lparr>buffer := buffer s @ drop 1 line @ [10], counter := Some 0\<rparr>)" and e = e and f = f and mid = mid and refs = refs and mbox = "buffer s @ drop 1 line @ [10]"]
  show ?thesis by simp
next
  case (handled mid refs s4)
  with mboxHandler_keys_mono [where s = "emit (ParseMBoxMessageIDAndReferences (buffer s @ drop 1 line @ [10])) (s\<lparr>buffer := buffer s @ drop 1 line @ [10], counter := Some 0\<rparr>)" and e = e and f = f and mid = mid and refs = refs and mbox = "buffer s @ drop 1 line @ [10]"]
  show ?thesis by simp
qed simp_all

lemma feed_keys_mono: "keys s \<subseteq> keys (feed e f ls s)"
proof (induction ls arbitrary: s)
  case Nil
  show ?case by (simp add: feed_def)
next
  case (Cons l ls)
  have "keys s \<subseteq> keys (lineHandler e f l s)" by (rule lineHandler_keys_mono)
  also have "\<dots> \<subseteq> keys (feed e f ls (lineHandler e f l s))" by (rule Cons.IH)
  finally show ?case by (simp add: feed_def)
qed

lemma mboxHandler_failed_keys:
  "fst (mboxHandler e f mid refs mbox s) \<noteq> Inr () \<Longrightarrow>
     keys (snd (mboxHandler e f mid refs mbox s)) = keys s"
proof (cases rule: mboxHandler_cases [where s = s and mid = mid and e = e and f = f and refs = refs and mbox = mbox])
  case (get_failed err s1)
  with resolve_keep(1) [OF get_failed(2)] show ?thesis by simp
next
  case (parse_failed u commit cid s1 err)
  with resolve_keep(1) [OF parse_failed(2)] show ?thesis by simp
next
  case (delivery_failed u commit cid s1 parsed err s3)
  with resolve_keep(1) [OF delivery_failed(2)] show ?thesis by simp
next
  case (write_failed u commit cid s1 parsed i s3 s4 rcd err)
  with resolve_keep(1) [OF write_failed(2)] show ?thesis by simp
qed simp_all

text \<open>
  Claim C2, as the code has it. A message whose key is among the known keys is not
  handled: \<open>mboxHandler\<close> returns at once and leaves the scan as it was, so no comment is
  posted and no note is read or written for it. This holds after any lines \<open>ls\<close> the scan
  has read in between, since keys are only ever added. The key of a message is added when
  its handler returns normally, which is after the comment has been posted and the record
  has been written: from then on the message is not delivered again. A handler that fails
  adds no key. So when the notes refuse the record after the comment has been posted, the
  message stays unknown: nothing keeps the scan from delivering it again, as it does in the
  scenario of \<open>env_unwritten\<close>.
\<close>

theorem known_message_is_not_delivered:
  "(hashKey mid \<in> keys s \<longrightarrow>
      mboxHandler e f mid refs mbox (feed e f ls s) = (Inr (), feed e f ls s)) \<and>
   (fst (mboxHandler e f mid refs mbox s) = Inr () \<and>
    deliveries (trace (snd (mboxHandler e f mid refs mbox s))) \<noteq> deliveries (trace s) \<longrightarrow>
      hashKey mid \<in> keys (snd (mboxHandler e f mid refs mbox s))) \<and>
   (fst (mboxHandler e f mid refs mbox s) \<noteq> Inr () \<longrightarrow>
      keys (snd (mboxHandler e f mid refs mbox s)) = keys s)"
proof (intro conjI impI)
  assume "hashKey mid \<in> keys s"
  with feed_keys_mono [of s e f ls] have "seen (keys (feed e f ls s)) mid"
    by (auto simp: seen_def)
  then show "mboxHandler e f mid refs mbox (feed e f ls s) = (Inr (), feed e f ls s)"
    by (rule mboxHandler_seen)
next
  assume a: "fst (mboxHandler e f mid refs mbox s) = Inr () \<and>
    deliveries (trace (snd (mboxHandler e f mid refs mbox s))) \<noteq> deliveries (trace s)"
  show "hashKey mid \<in> keys (snd (mboxHandler e f mid refs mbox s))"
  proof (cases rule: mboxHandler_cases [where s = s and mid = mid and e = e and f = f and refs = refs and mbox = mbox])
    case known
    with a show ?thesis by simp
  next
    case (get_failed err s1)
    with a show ?thesis by simp
  next
    case (no_target url commit cid s1)
    with a resolve_keep(6) [OF no_target(2)] show ?thesis by simp
  next
    case (parse_failed u commit cid s1 err)
    with a show ?thesis by simp
  next
    case (delivery_failed u commit cid s1 parsed err s3)
    with a show ?thesis by simp
  next
    case (write_failed u commit cid s1 parsed i s3 s4 rcd err)
    with a show ?thesis by simp
  next
    case (recorded u commit cid s1 parsed i s3 s4 rcd)
    then show ?thesis by simp
  qed
next
  assume "fst (mboxHandler e f mid refs mbox s) \<noteq> Inr ()"
  then show "keys (snd (mboxHandler e f mid refs mbox s)) = keys s"
    by (rule mboxHandler_failed_keys)
qed





lemma handler_delivers:
  assumes "\<not> seen (keys s) mid"
    and "resolve e f (filter (seen (keys s)) refs) (None, None, None) s
           = (Inr (Some url, commit, cid), s1)"
    and "url \<noteq> []"
    and "parseMBox e mbox = Inr parsed"
  shows "deliveries (trace (snd (mboxHandler e f mid refs mbox s)))
         = deliveries (trace s) @ [chosen_delivery e url commit cid (comment_text e mid parsed)]"
proof -
  note d = resolve_keep(6) [OF assms(2)]
  show ?thesis
  proof (cases rule: mboxHandler_cases [where s = s and mid = mid and e = e and f = f and refs = refs and mbox = mbox])
    case known
    with assms(1) show ?thesis by simp
  next
    case (get_failed err' s1')
    with assms(2) show ?thesis by simp
  next
    case (no_target url' commit' cid' s1')
    with assms(2,3) show ?thesis by (auto simp: truthy_string_def)
  next
    case (parse_failed u' commit' cid' s1' err')
    with assms(4) show ?thesis by simp
  next
    case (delivery_failed u' commit' cid' s1' parsed' err s3)
    with assms(2,4) d show ?thesis by simp
  next
    case (write_failed u' commit' cid' s1' parsed' i s3 s4 rcd err)
    with assms(2,4) d show ?thesis by simp
  next
    case (recorded u' commit' cid' s1' parsed' i s3 s4 rcd)
    with assms(2,4) d show ?thesis by simp
  qed
qed

lemma handler_drops_unparsed:
  assumes "\<not> seen (keys s) mid"
    and "resolve e f (filter (seen (keys s)) refs) (None, None, None) s
           = (Inr (Some url, commit, cid), s1)"
    and "url \<noteq> []"
    and "parseMBox e mbox = Inl err"
  shows "fst (mboxHandler e f mid refs mbox s) = Inl err \<and>
         deliveries (trace (snd (mboxHandler e f mid refs mbox s))) = deliveries (trace s) \<and>
         writes (trace (snd (mboxHandler e f mid refs mbox s))) = writes (trace s)"
proof -
  note d = resolve_keep(6,7) [OF assms(2)]
  show ?thesis
  proof (cases rule: mboxHandler_cases [where s = s and mid = mid and e = e and f = f and refs = refs and mbox = mbox])
    case known
    with assms(1) show ?thesis by simp
  next
    case (get_failed err' s1')
    with assms(2) show ?thesis by simp
  next
    case (no_target url' commit' cid' s1')
    with assms(2,3) show ?thesis by (auto simp: truthy_string_def)
  next
    case (parse_failed u' commit' cid' s1' err')
    with assms(2,4) d show ?thesis by simp
  next
    case (delivery_failed u' commit' cid' s1' parsed' err s3)
    with assms(4) show ?thesis by simp
  next
    case (write_failed u' commit' cid' s1' parsed' i s3 s4 rcd err)
    with assms(4) show ?thesis by simp
  next
    case (recorded u' commit' cid' s1' parsed' i s3 s4 rcd)
    with assms(4) show ?thesis by simp
  qed
qed

text \<open>
  Claim C5, as the code has it. The mail is parsed after the pull request of the message
  has been chosen and before anything is posted. When the parser accepts the mail, the
  handler posts exactly one comment: a reply to the comment when \<open>issueCommentId\<close> is
  known; else a comment on the commit when \<open>originalCommit\<close> is known; else a comment on
  the pull request. Known is what passes the truth test of the code: defined, and neither
  \<open>0\<close> nor the empty string. The call is made whether or not GitHub then accepts it. When
  the parser rejects the mail, the handler fails with the error of the parser and no
  comment is posted.
\<close>

theorem one_delivery_by_precedence:
  assumes "\<not> seen (keys s) mid"
    and "resolve e f (filter (seen (keys s)) refs) (None, None, None) s
           = (Inr (Some url, commit, cid), s1)"
    and "url \<noteq> []"
  shows "(parseMBox e mbox = Inr parsed \<longrightarrow>
            deliveries (trace (snd (mboxHandler e f mid refs mbox s)))
              = deliveries (trace s) @
                [if truthy_number cid then
                   AddPRCommentReply url (the cid) (comment_text e mid parsed)
                 else if truthy_string commit then
                   AddPRCommitComment url (the commit) (workDir e) (comment_text e mid parsed)
                 else AddPRComment url (comment_text e mid parsed)]) \<and>
         (parseMBox e mbox = Inl err \<longrightarrow>
            fst (mboxHandler e f mid refs mbox s) = Inl err \<and>
            deliveries (trace (snd (mboxHandler e f mid refs mbox s))) = deliveries (trace s))"
proof (intro conjI impI)
  assume "parseMBox e mbox = Inr parsed"
  from handler_delivers [OF assms this]
  show "deliveries (trace (snd (mboxHandler e f mid refs mbox s)))
              = deliveries (trace s) @
                [if truthy_number cid then
                   AddPRCommentReply url (the cid) (comment_text e mid parsed)
                 else if truthy_string commit then
                   AddPRCommitComment url (the commit) (workDir e) (comment_text e mid parsed)
                 else AddPRComment url (comment_text e mid parsed)]"
    by (simp add: chosen_delivery_def)
next
  assume p: "parseMBox e mbox = Inl err"
  from handler_drops_unparsed [OF assms p]
  show "fst (mboxHandler e f mid refs mbox s) = Inl err"
    and "deliveries (trace (snd (mboxHandler e f mid refs mbox s))) = deliveries (trace s)"
    by simp_all
qed

text \<open>
  Claim C9, as the code has it. When the comment is posted (GitHub returns the
  identifier \<open>i\<close>) and the note is written, the record stored under the message-id holds
  the pull request and the commit of the target, and as \<open>issueCommentId\<close> the identifier
  \<open>i\<close> if the comment was a reply or a comment on a commit. For a comment on the pull
  request itself the identifier is dropped: the record keeps the \<open>issueCommentId\<close> of the
  target, which is none. In each of the three modes this one note is written and the key
  of the message is added to the known keys at once.
\<close>

theorem delivery_is_recorded:
  assumes "\<not> seen (keys s) mid"
    and "resolve e f (filter (seen (keys s)) refs) (None, None, None) s
           = (Inr (Some url, commit, cid), s1)"
    and "url \<noteq> []"
    and "parseMBox e mbox = Inr parsed"
    and "tr = trace s1 @ [ConsoleLog (message_line mid mbox url commit cid), ParseMBox mbox]"
    and "github e tr (chosen_delivery e url commit cid (comment_text e mid parsed)) = Inr i"
    and "rcd = \<lparr>messageID = mid, pullRequestURL = Some url, originalCommit = commit,
                 issueCommentId = (if truthy_number cid \<or> truthy_string commit then Some i
                                   else cid)\<rparr>"
    and "notes_fault e (tr @ [chosen_delivery e url commit cid (comment_text e mid parsed)])
           (NotesSet mid (MailMetadata rcd) False) = None"
  shows "fst (mboxHandler e f mid refs mbox s) = Inr () \<and>
         store (snd (mboxHandler e f mid refs mbox s)) = (store s)(mid \<mapsto> MailMetadata rcd) \<and>
         writes (trace (snd (mboxHandler e f mid refs mbox s)))
           = writes (trace s) @ [NotesSet mid (MailMetadata rcd) False] \<and>
         keys (snd (mboxHandler e f mid refs mbox s)) = insert (hashKey mid) (keys s)"
proof (cases rule: mboxHandler_cases [where s = s and mid = mid and e = e and f = f and refs = refs and mbox = mbox])
  case known
  with assms(1) show ?thesis by simp
next
  case (get_failed err' s1')
  with assms(2) show ?thesis by simp
next
  case (no_target url' commit' cid' s1')
  with assms(2,3) show ?thesis by (simp add: truthy_string_def)
next
  case (parse_failed u' commit' cid' s1' err')
  with assms(4) show ?thesis by simp
next
  case (delivery_failed u' commit' cid' s1' parsed' err s3)
  with assms(2,4,5,6) show ?thesis by simp
next
  case (write_failed u' commit' cid' s1' parsed' i' s3 s4 rcd' err)
  with assms(2,4,5,6,7,8) show ?thesis by auto
next
  case (recorded u' commit' cid' s1' parsed' i' s3 s4 rcd')
  with assms(2,4,5,6,7) resolve_keep [OF assms(2)] show ?thesis by auto
qed

section \<open>Which record a message is attached to\<close>

lemma resolve_three:
  assumes A: "store s a = Some (MailMetadata A)" "truthy_string (pullRequestURL A)"
      "\<not> truthy_string (originalCommit A)" "\<not> truthy_number (issueCommentId A)"
    and B: "store s b = Some (MailMetadata B)" "truthy_string (pullRequestURL B)"
      "\<not> truthy_string (originalCommit B)" "truthy_number (issueCommentId B)"
    and C: "store s c = Some (MailMetadata C)" "truthy_string (pullRequestURL C)"
      "truthy_string (originalCommit C)" "\<not> truthy_number (issueCommentId C)"
    and pull: "\<not> startsWith c (js ''pull'')"
    and filter: "case f of None \<Rightarrow> True
                 | Some p \<Rightarrow> p (the (pullRequestURL A)) \<and> p (the (pullRequestURL B))
                              \<and> p (the (pullRequestURL C))"
    and reads: "\<forall>tr k. notes_fault e tr (NotesGet k) = None"
  shows "resolve e f [a, b, c] (None, None, None) s =
           (Inr (pullRequestURL C, originalCommit C, issueCommentId C),
            s\<lparr>trace := trace s @ [NotesGet a, NotesGet b, NotesGet c]\<rparr>)"
proof -
  have fa: "\<not> (case f of None \<Rightarrow> False | Some p \<Rightarrow> \<not> p (the (pullRequestURL A)))"
    and fb: "\<not> (case f of None \<Rightarrow> False | Some p \<Rightarrow> \<not> p (the (pullRequestURL B)))"
    and fc: "\<not> (case f of None \<Rightarrow> False | Some p \<Rightarrow> \<not> p (the (pullRequestURL C)))"
    using filter by (auto split: option.splits)
  have 1: "adopt f a (Some (MailMetadata A)) (None, None, None)
           = (pullRequestURL A, if startsWith a (js ''pull'') then None else originalCommit A,
              issueCommentId A)"
    using A fa by (simp add: adopt_def truthy_string_def Let_def)
  have 2: "adopt f b (Some (MailMetadata B))
             (pullRequestURL A, if startsWith a (js ''pull'') then None else originalCommit A,
              issueCommentId A)
           = (pullRequestURL B, if startsWith b (js ''pull'') then None else originalCommit B,
              issueCommentId B)"
    using A B fb by (simp add: adopt_def Let_def)
  have 3: "adopt f c (Some (MailMetadata C))
             (pullRequestURL B, if startsWith b (js ''pull'') then None else originalCommit B,
              issueCommentId B)
           = (pullRequestURL C, originalCommit C, issueCommentId C)"
    using B C fc pull by (auto simp: adopt_def Let_def truthy_string_def)
  show ?thesis
    using reads A(1) B(1) C(1) 1 2 3 by (simp add: notes_get_ok emit_def)
qed

text \<open>
  Claim C1, as the code has it. A message refers, in this order, to three known messages
  whose records are \<open>A\<close> (a pull request only), \<open>B\<close> (the pull request and a comment) and
  \<open>C\<close> (the pull request and a commit); the filter vetoes none of them, the reference of
  \<open>C\<close> is not a cover letter (it does not start with \<open>pull\<close>), and the notes answer each
  read. A record that offers a field the choice so far lacks replaces the choice whole. So
  the loop ends with the three fields of \<open>C\<close> alone: its pull request, its commit and no
  comment, the comment of \<open>B\<close> being dropped with \<open>B\<close>. The message is then posted as a
  comment on that commit.
\<close>

theorem last_improving_record_wins:
  assumes "store s a = Some (MailMetadata A)" and "truthy_string (pullRequestURL A)"
    and "\<not> truthy_string (originalCommit A)" and "\<not> truthy_number (issueCommentId A)"
    and "store s b = Some (MailMetadata B)" and "truthy_string (pullRequestURL B)"
    and "\<not> truthy_string (originalCommit B)" and "truthy_number (issueCommentId B)"
    and "store s c = Some (MailMetadata C)" and "truthy_string (pullRequestURL C)"
    and "truthy_string (originalCommit C)" and "\<not> truthy_number (issueCommentId C)"
    and "\<not> startsWith c (js ''pull'')"
    and "case f of None \<Rightarrow> True
         | Some p \<Rightarrow> p (the (pullRequestURL A)) \<and> p (the (pullRequestURL B))
                      \<and> p (the (pullRequestURL C))"
    and "\<forall>tr k. notes_fault e tr (NotesGet k) = None"
    and "seen (keys s) a" and "seen (keys s) b" and "seen (keys s) c"
    and "\<not> seen (keys s) mid"
    and "parseMBox e mbox = Inr parsed"
  shows "fst (resolve e f [a, b, c] (None, None, None) s)
           = Inr (pullRequestURL C, originalCommit C, issueCommentId C) \<and>
         deliveries (trace (snd (mboxHandler e f mid [a, b, c] mbox s)))
           = deliveries (trace s) @
             [AddPRCommitComment (the (pullRequestURL C)) (the (originalCommit C)) (workDir e)
                (comment_text e mid parsed)]"
proof -
  note r = resolve_three [OF assms(1-15)]
  obtain u where u: "pullRequestURL C = Some u" "u \<noteq> []"
    using assms(10) by (auto simp: truthy_string_def split: option.splits)
  have known: "filter (seen (keys s)) [a, b, c] = [a, b, c]" using assms(16-18) by simp
  have res: "resolve e f (filter (seen (keys s)) [a, b, c]) (None, None, None) s
      = (Inr (Some u, originalCommit C, issueCommentId C),
         s\<lparr>trace := trace s @ [NotesGet a, NotesGet b, NotesGet c]\<rparr>)"
    unfolding known using r u by (simp del: resolve.simps)
  have "deliveries (trace (snd (mboxHandler e f mid [a, b, c] mbox s)))
         = deliveries (trace s) @
           [chosen_delivery e u (originalCommit C) (issueCommentId C) (comment_text e mid parsed)]"
    by (rule handler_delivers [OF assms(19) res u(2) assms(20)])
  then show ?thesis using r u assms(11,12) by (simp add: chosen_delivery_def del: resolve.simps)
qed

section \<open>The scan\<close>

lemma processMails_no_listing:
  "ls_tree e = Inl err \<Longrightarrow> processMails e f w = (Inl err, emit GitLsTree w)"
  by (simp add: processMails_def Let_def)

lemma cursor_trace [simp]: "cursor (w\<lparr>trace := t\<rparr>) = cursor w"
  by (simp add: cursor_def)

lemma default_state:
  "(if \<not> truthy_string (latestRevision (state w))
    then w\<lparr>state := (state w)\<lparr>latestRevision := Some firstRevision\<rparr>\<rparr> else w)
   = w\<lparr>state := \<lparr>latestRevision = Some (cursor w)\<rparr>\<rparr>"
  by (cases "latestRevision (state w)") (auto simp: cursor_def truthy_string_def)

lemma state_update [simp]:
  "(r :: IGitMailingListMirrorState)\<lparr>latestRevision := v\<rparr> = \<lparr>latestRevision = v\<rparr>"
  by (cases r) simp

lemma processMails_unfold:
  assumes "ls_tree e = Inr out" and "revParse e = Inr h"
  shows "processMails e f w =
     (if cursor w = h then
        (Inr False, w\<lparr>state := \<lparr>latestRevision = Some (cursor w)\<rparr>,
                       trace := trace w @ [GitLsTree, RevParse]\<rparr>)
      else
        (case snd (git_log e (cursor w @ js ''..'' @ h)) of
           Some err \<Rightarrow>
             (Inl err,
              world.truncate
                (feed e f (fst (git_log e (cursor w @ js ''..'' @ h)))
                   (start_scan (listed_keys out)
                      (w\<lparr>state := \<lparr>latestRevision = Some (cursor w)\<rparr>,
                         trace := trace w @ [GitLsTree, RevParse,
                                            GitLog (cursor w @ js ''..'' @ h)]\<rparr>))))
         | None \<Rightarrow>
             (case notes_set e stateKey (MirrorState \<lparr>latestRevision = Some h\<rparr>) True
                     ((world.truncate
                         (feed e f (fst (git_log e (cursor w @ js ''..'' @ h)))
                            (start_scan (listed_keys out)
                               (w\<lparr>state := \<lparr>latestRevision = Some (cursor w)\<rparr>,
                                  trace := trace w @ [GitLsTree, RevParse,
                                                     GitLog (cursor w @ js ''..'' @ h)]\<rparr>))))
                        \<lparr>state := \<lparr>latestRevision = Some h\<rparr>\<rparr>) of
                (Inl err, w7) \<Rightarrow> (Inl err, w7)
              | (Inr _, w7) \<Rightarrow> (Inr True, w7))))"
proof -
  have d: "(if \<not> truthy_string (latestRevision (state (emit GitLsTree w)))
            then (emit GitLsTree w)\<lparr>state := (state (emit GitLsTree w))\<lparr>latestRevision := Some firstRevision\<rparr>\<rparr>
            else emit GitLsTree w)
           = w\<lparr>state := \<lparr>latestRevision = Some (cursor w)\<rparr>, trace := trace w @ [GitLsTree]\<rparr>"
    unfolding default_state by (simp add: emit_def)
  show ?thesis
    unfolding processMails_def Let_def d
    using assms by (simp add: emit_def cong: option.case_cong sum.case_cong prod.case_cong)
qed

text \<open>
  Claim C6. When the head of the archive is the cursor, \<open>processMails\<close> returns
  \<open>false\<close>. The notes and the cursor are what they were. The calls made are the listing of
  the keys of the notes and the resolution of the head, and no other: no comment is
  posted, no note is written, no history is read.
\<close>

theorem no_new_history_is_a_no_op:
  assumes "ls_tree e = Inr out" and "revParse e = Inr h" and "cursor w = h"
  shows "fst (processMails e f w) = Inr False \<and>
         store (snd (processMails e f w)) = store w \<and>
         cursor (snd (processMails e f w)) = cursor w \<and>
         trace (snd (processMails e f w)) = trace w @ [GitLsTree, RevParse] \<and>
         deliveries (trace (snd (processMails e f w))) = deliveries (trace w) \<and>
         writes (trace (snd (processMails e f w))) = writes (trace w)"
proof -
  have "h \<noteq> []" using assms(3) by (auto simp: cursor_def truthy_string_def firstRevision_def js_def split: if_splits option.splits)
  then show ?thesis
    using assms by (simp add: processMails_unfold [OF assms(1,2)] cursor_def truthy_string_def)
qed

lemma notes_set_state:
  "notes_set e k v b w = (r, w') \<Longrightarrow> state w' = state w"
  by (auto simp: notes_set_def emit_def split: option.splits)

lemma scan_end:
  assumes "ls_tree e = Inr out" and "revParse e = Inr h" and "cursor w \<noteq> h"
    and "snd (git_log e (cursor w @ js ''..'' @ h)) = None"
  shows "\<exists>w6. state w6 = \<lparr>latestRevision = Some h\<rparr> \<and>
           processMails e f w =
             (case notes_fault e (trace w6) (NotesSet stateKey (MirrorState \<lparr>latestRevision = Some h\<rparr>) True) of
                Some err \<Rightarrow> (Inl err, emit (NotesSet stateKey (MirrorState \<lparr>latestRevision = Some h\<rparr>) True) w6)
              | None \<Rightarrow> (Inr True, (emit (NotesSet stateKey (MirrorState \<lparr>latestRevision = Some h\<rparr>) True) w6)
                     \<lparr>store := (store w6)(stateKey \<mapsto> MirrorState \<lparr>latestRevision = Some h\<rparr>)\<rparr>))"
proof -
  let ?w6 = "(world.truncate
                (feed e f (fst (git_log e (cursor w @ js ''..'' @ h)))
                   (start_scan (listed_keys out)
                      (w\<lparr>state := \<lparr>latestRevision = Some (cursor w)\<rparr>,
                         trace := trace w @ [GitLsTree, RevParse,
                                            GitLog (cursor w @ js ''..'' @ h)]\<rparr>))))
                \<lparr>state := \<lparr>latestRevision = Some h\<rparr>\<rparr>"
  have "processMails e f w =
             (case notes_fault e (trace ?w6) (NotesSet stateKey (MirrorState \<lparr>latestRevision = Some h\<rparr>) True) of
                Some err \<Rightarrow> (Inl err, emit (NotesSet stateKey (MirrorState \<lparr>latestRevision = Some h\<rparr>) True) ?w6)
              | None \<Rightarrow> (Inr True, (emit (NotesSet stateKey (MirrorState \<lparr>latestRevision = Some h\<rparr>) True) ?w6)
                     \<lparr>store := (store ?w6)(stateKey \<mapsto> MirrorState \<lparr>latestRevision = Some h\<rparr>)\<rparr>))"
    using assms(3,4) by (simp add: processMails_unfold [OF assms(1,2)] notes_set_def split: option.splits)
  moreover have "state ?w6 = \<lparr>latestRevision = Some h\<rparr>" by simp
  ultimately show ?thesis by blast
qed

lemma failed_delivery_is_skipped:
  assumes "\<not> startsWith line (js ''@@ '')" and "counter s = Some 1"
    and "msg = buffer s @ drop 1 line @ [10]"
    and "parseMBoxMessageIDAndReferences e msg = Inr (mid, refs)"
    and "s3 = emit (ParseMBoxMessageIDAndReferences msg) (s\<lparr>buffer := msg, counter := Some 0\<rparr>)"
    and "\<not> seen (keys s) mid"
    and "resolve e f (filter (seen (keys s)) refs) (None, None, None) s3
           = (Inr (Some url, commit, cid), s1)"
    and "url \<noteq> []"
    and "parseMBox e msg = Inr parsed"
    and "github e (trace s1 @ [ConsoleLog (message_line mid msg url commit cid), ParseMBox msg])
           (chosen_delivery e url commit cid (comment_text e mid parsed)) = Inl reason"
  shows "lineHandler e f line s =
           emit (skipping reason)
             (emit (chosen_delivery e url commit cid (comment_text e mid parsed))
                (emit (ParseMBox msg)
                   (emit (ConsoleLog (message_line mid msg url commit cid)) s1)))"
proof -
  have k3: "keys s3 = keys s" using assms(5) by simp
  have h: "mboxHandler e f mid refs msg s3 =
             (Inl reason, emit (chosen_delivery e url commit cid (comment_text e mid parsed))
                (emit (ParseMBox msg)
                   (emit (ConsoleLog (message_line mid msg url commit cid)) s1)))"
  proof (cases rule: mboxHandler_cases [where s = s3 and mid = mid and e = e and f = f and refs = refs and mbox = msg])
    case known
    with assms(6) k3 show ?thesis by simp
  next
    case (get_failed err' s1')
    with assms(7) k3 show ?thesis by simp
  next
    case (no_target url' commit' cid' s1')
    with assms(7,8) k3 show ?thesis by (auto simp: truthy_string_def)
  next
    case (parse_failed u' commit' cid' s1' err')
    with assms(9) show ?thesis by simp
  next
    case (delivery_failed u' commit' cid' s1' parsed' err s3')
    with assms(7,9,10) k3 show ?thesis by simp
  next
    case (write_failed u' commit' cid' s1' parsed' i s3' s4 rcd err)
    with assms(7,9,10) k3 show ?thesis by simp
  next
    case (recorded u' commit' cid' s1' parsed' i s3' s4 rcd)
    with assms(7,9,10) k3 show ?thesis by simp
  qed
  show ?thesis
  proof (cases rule: lineHandler_cases [where line = line and s = s and e = e and f = f])
    case (header m3)
    with assms(1) show ?thesis by simp
  next
    case ignored
    with assms(1,2) show ?thesis by (simp add: truthy_counter_def)
  next
    case (collecting k)
    with assms(2) show ?thesis by simp
  next
    case (unparsable reason)
    with assms(3,4) show ?thesis by simp
  next
    case (failed mid' refs' reason' s4)
    with assms(3,4,5) h show ?thesis by simp
  next
    case (handled mid' refs' s4)
    with assms(3,4,5) h show ?thesis by simp
  qed
qed

text \<open>
  Claim C7. When the head differs from the cursor and the history has been streamed to
  its end, the state holds the head afterwards, and the last call of the scan writes that
  state to the notes under the state key, whatever became of the messages in between; if
  this write succeeds, the scan returns \<open>true\<close> and the notes hold the new cursor. As for
  one message whose delivery GitHub refuses with \<open>reason\<close>: on the last line of that
  message \<open>lineHandler\<close> logs \<open>reason: skipping\<close>, writes no note, leaves the notes and
  the known keys as they were, and returns, so the scan goes on to the next line.
\<close>

theorem cursor_advances_after_scan:
  assumes "ls_tree e = Inr out" and "revParse e = Inr h" and "cursor w \<noteq> h"
    and "snd (git_log e (cursor w @ js ''..'' @ h)) = None"
  shows "state (snd (processMails e f w)) = \<lparr>latestRevision = Some h\<rparr> \<and>
         last (trace (snd (processMails e f w)))
           = NotesSet stateKey (MirrorState \<lparr>latestRevision = Some h\<rparr>) True \<and>
         (notes_fault e (butlast (trace (snd (processMails e f w))))
            (NotesSet stateKey (MirrorState \<lparr>latestRevision = Some h\<rparr>) True) = None \<longrightarrow>
          fst (processMails e f w) = Inr True \<and>
          store (snd (processMails e f w)) stateKey
            = Some (MirrorState \<lparr>latestRevision = Some h\<rparr>)) \<and>
         (\<not> startsWith line (js ''@@ '') \<and> counter s = Some 1 \<and>
          parseMBoxMessageIDAndReferences e (buffer s @ drop 1 line @ [10]) = Inr (mid, refs) \<and>
          \<not> seen (keys s) mid \<and>
          resolve e f (filter (seen (keys s)) refs) (None, None, None)
            (emit (ParseMBoxMessageIDAndReferences (buffer s @ drop 1 line @ [10]))
               (s\<lparr>buffer := buffer s @ drop 1 line @ [10], counter := Some 0\<rparr>))
            = (Inr (Some url, commit, cid), s1) \<and>
          url \<noteq> [] \<and>
          parseMBox e (buffer s @ drop 1 line @ [10]) = Inr parsed \<and>
          github e (trace s1 @ [ConsoleLog (message_line mid (buffer s @ drop 1 line @ [10])
                                              url commit cid),
                                ParseMBox (buffer s @ drop 1 line @ [10])])
            (chosen_delivery e url commit cid (comment_text e mid parsed)) = Inl reason \<longrightarrow>
          last (trace (lineHandler e f line s)) = ConsoleLog (reason @ js '': skipping'') \<and>
          writes (trace (lineHandler e f line s)) = writes (trace s) \<and>
          store (lineHandler e f line s) = store s \<and>
          keys (lineHandler e f line s) = keys s)"
proof (intro conjI impI)
  from scan_end [OF assms, of f] obtain w6 where
    w6: "state w6 = \<lparr>latestRevision = Some h\<rparr>"
    and run: "processMails e f w =
             (case notes_fault e (trace w6) (NotesSet stateKey (MirrorState \<lparr>latestRevision = Some h\<rparr>) True) of
                Some err \<Rightarrow> (Inl err, emit (NotesSet stateKey (MirrorState \<lparr>latestRevision = Some h\<rparr>) True) w6)
              | None \<Rightarrow> (Inr True, (emit (NotesSet stateKey (MirrorState \<lparr>latestRevision = Some h\<rparr>) True) w6)
                     \<lparr>store := (store w6)(stateKey \<mapsto> MirrorState \<lparr>latestRevision = Some h\<rparr>)\<rparr>))"
    by blast
  show "state (snd (processMails e f w)) = \<lparr>latestRevision = Some h\<rparr>"
    using w6 run by (simp split: option.splits)
  show "last (trace (snd (processMails e f w)))
           = NotesSet stateKey (MirrorState \<lparr>latestRevision = Some h\<rparr>) True"
    using run by (simp split: option.splits)
  have bl: "butlast (trace (snd (processMails e f w))) = trace w6"
    using run by (simp split: option.splits)
  assume "notes_fault e (butlast (trace (snd (processMails e f w))))
            (NotesSet stateKey (MirrorState \<lparr>latestRevision = Some h\<rparr>) True) = None"
  then have ok: "notes_fault e (trace w6)
            (NotesSet stateKey (MirrorState \<lparr>latestRevision = Some h\<rparr>) True) = None"
    by (simp only: bl)
  show "fst (processMails e f w) = Inr True" using run ok by simp
  show "store (snd (processMails e f w)) stateKey
            = Some (MirrorState \<lparr>latestRevision = Some h\<rparr>)" using run ok by simp
next
  assume a: "\<not> startsWith line (js ''@@ '') \<and> counter s = Some 1 \<and>
          parseMBoxMessageIDAndReferences e (buffer s @ drop 1 line @ [10]) = Inr (mid, refs) \<and>
          \<not> seen (keys s) mid \<and>
          resolve e f (filter (seen (keys s)) refs) (None, None, None)
            (emit (ParseMBoxMessageIDAndReferences (buffer s @ drop 1 line @ [10]))
               (s\<lparr>buffer := buffer s @ drop 1 line @ [10], counter := Some 0\<rparr>))
            = (Inr (Some url, commit, cid), s1) \<and>
          url \<noteq> [] \<and>
          parseMBox e (buffer s @ drop 1 line @ [10]) = Inr parsed \<and>
          github e (trace s1 @ [ConsoleLog (message_line mid (buffer s @ drop 1 line @ [10])
                                              url commit cid),
                                ParseMBox (buffer s @ drop 1 line @ [10])])
            (chosen_delivery e url commit cid (comment_text e mid parsed)) = Inl reason"
  then have res: "resolve e f (filter (seen (keys s)) refs) (None, None, None)
            (emit (ParseMBoxMessageIDAndReferences (buffer s @ drop 1 line @ [10]))
               (s\<lparr>buffer := buffer s @ drop 1 line @ [10], counter := Some 0\<rparr>))
            = (Inr (Some url, commit, cid), s1)" by blast
  have L: "lineHandler e f line s =
           emit (skipping reason)
             (emit (chosen_delivery e url commit cid (comment_text e mid parsed))
                (emit (ParseMBox (buffer s @ drop 1 line @ [10]))
                   (emit (ConsoleLog (message_line mid (buffer s @ drop 1 line @ [10]) url commit cid)) s1)))"
    using a by (intro failed_delivery_is_skipped [OF _ _ refl _ refl]) blast+
  show "last (trace (lineHandler e f line s)) = ConsoleLog (reason @ js '': skipping'')"
    by (simp add: L skipping_def)
  show "writes (trace (lineHandler e f line s)) = writes (trace s)"
    using resolve_keep(7) [OF res] by (simp add: L skipping_def)
  show "store (lineHandler e f line s) = store s"
    using resolve_keep(2) [OF res] by (simp add: L)
  show "keys (lineHandler e f line s) = keys s"
    using resolve_keep(1) [OF res] by (simp add: L)
qed

lemma resolve_error:
  "resolve e f rs t s = (Inl err, s') \<Longrightarrow>
     \<exists>k. last (trace s') = NotesGet k \<and> notes_fault e (butlast (trace s')) (NotesGet k) = Some err"
proof (induction rs arbitrary: t s)
  case Nil
  then show ?case by simp
next
  case (Cons x rs)
  show ?case
  proof (cases "notes_fault e (trace s) (NotesGet x)")
    case (Some err')
    with Cons.prems have "err' = err" "s' = emit (NotesGet x) s" by (simp_all add: notes_get_def)
    with Some show ?thesis by simp
  next
    case None
    with Cons.prems have "resolve e f rs (adopt f x (store s x) t) (emit (NotesGet x) s) = (Inl err, s')"
      by (simp add: notes_get_ok)
    then show ?thesis by (rule Cons.IH)
  qed
qed

lemma lineHandler_failed:
  assumes "\<not> startsWith line (js ''@@ '')" and "counter s = Some 1"
    and "msg = buffer s @ drop 1 line @ [10]"
    and "parseMBoxMessageIDAndReferences e msg = Inr (mid, refs)"
    and "s3 = emit (ParseMBoxMessageIDAndReferences msg) (s\<lparr>buffer := msg, counter := Some 0\<rparr>)"
    and "mboxHandler e f mid refs msg s3 = (Inl reason, s4)"
  shows "lineHandler e f line s = emit (skipping reason) s4"
proof (cases rule: lineHandler_cases [where line = line and s = s and e = e and f = f])
  case (header m3)
  with assms(1) show ?thesis by simp
next
  case ignored
  with assms(1,2) show ?thesis by (simp add: truthy_counter_def)
next
  case (collecting k)
  with assms(2) show ?thesis by simp
next
  case (unparsable reason)
  with assms(3,4) show ?thesis by simp
next
  case (failed mid' refs' reason' s4')
  with assms(3,4,5,6) show ?thesis by simp
next
  case (handled mid' refs' s4')
  with assms(3,4,5,6) show ?thesis by simp
qed

lemma failed_read_is_skipped:
  assumes "\<not> startsWith line (js ''@@ '')" and "counter s = Some 1"
    and "msg = buffer s @ drop 1 line @ [10]"
    and "parseMBoxMessageIDAndReferences e msg = Inr (mid, refs)"
    and "s3 = emit (ParseMBoxMessageIDAndReferences msg) (s\<lparr>buffer := msg, counter := Some 0\<rparr>)"
    and "\<not> seen (keys s) mid"
    and "resolve e f (filter (seen (keys s)) refs) (None, None, None) s3 = (Inl reason, s1)"
  shows "lineHandler e f line s = emit (skipping reason) s1"
proof -
  have k3: "keys s3 = keys s" using assms(5) by simp
  have "mboxHandler e f mid refs msg s3 = (Inl reason, s1)"
    using assms(6,7) k3 by (simp add: mboxHandler_def)
  from lineHandler_failed [OF assms(1-5) this] show ?thesis .
qed

lemma failed_write_is_skipped:
  assumes "\<not> startsWith line (js ''@@ '')" and "counter s = Some 1"
    and "msg = buffer s @ drop 1 line @ [10]"
    and "parseMBoxMessageIDAndReferences e msg = Inr (mid, refs)"
    and "s3 = emit (ParseMBoxMessageIDAndReferences msg) (s\<lparr>buffer := msg, counter := Some 0\<rparr>)"
    and "\<not> seen (keys s) mid"
    and "resolve e f (filter (seen (keys s)) refs) (None, None, None) s3
           = (Inr (Some url, commit, cid), s1)"
    and "url \<noteq> []"
    and "parseMBox e msg = Inr parsed"
    and "tr = trace s1 @ [ConsoleLog (message_line mid msg url commit cid), ParseMBox msg]"
    and "github e tr (chosen_delivery e url commit cid (comment_text e mid parsed)) = Inr i"
    and "rcd = MailMetadata \<lparr>messageID = mid, pullRequestURL = Some url, originalCommit = commit,
                 issueCommentId = (if truthy_number cid \<or> truthy_string commit then Some i
                                   else cid)\<rparr>"
    and "notes_fault e (tr @ [chosen_delivery e url commit cid (comment_text e mid parsed)])
           (NotesSet mid rcd False) = Some reason"
  shows "lineHandler e f line s =
           emit (skipping reason)
             (emit (NotesSet mid rcd False)
                (emit (chosen_delivery e url commit cid (comment_text e mid parsed))
                   (emit (ParseMBox msg)
                      (emit (ConsoleLog (message_line mid msg url commit cid)) s1))))"
proof -
  have k3: "keys s3 = keys s" using assms(5) by simp
  have h: "mboxHandler e f mid refs msg s3 =
             (Inl reason, emit (NotesSet mid rcd False)
                (emit (chosen_delivery e url commit cid (comment_text e mid parsed))
                   (emit (ParseMBox msg)
                      (emit (ConsoleLog (message_line mid msg url commit cid)) s1))))"
  proof (cases rule: mboxHandler_cases [where s = s3 and mid = mid and e = e and f = f and refs = refs and mbox = msg])
    case known
    with assms(6) k3 show ?thesis by simp
  next
    case (get_failed err' s1')
    with assms(7) k3 show ?thesis by simp
  next
    case (no_target url' commit' cid' s1')
    with assms(7,8) k3 show ?thesis by (auto simp: truthy_string_def)
  next
    case (parse_failed u' commit' cid' s1' err')
    with assms(9) show ?thesis by simp
  next
    case (delivery_failed u' commit' cid' s1' parsed' err s3')
    with assms(7,9,10,11) k3 show ?thesis by simp
  next
    case (write_failed u' commit' cid' s1' parsed' i' s3' s4 rcd' err)
    with assms(7,9,10,11,12,13) k3 show ?thesis by auto
  next
    case (recorded u' commit' cid' s1' parsed' i' s3' s4 rcd')
    with assms(7,9,10,11,12,13) k3 show ?thesis by auto
  qed
  from lineHandler_failed [OF assms(1-5) h] show ?thesis .
qed

text \<open>
  Claim C8, as the code has it. A read or a write of the notes that fails while a message
  is handled does not leave the scan. When the read for a reference fails with \<open>reason\<close>
  (the only way for \<open>resolve\<close> to fail), \<open>lineHandler\<close> logs \<open>reason: skipping\<close>, posts
  nothing, writes nothing and returns. When the notes refuse the record with \<open>reason\<close>
  after the comment has been posted, \<open>lineHandler\<close> logs \<open>reason: skipping\<close> and
  returns. In both cases the notes and the known keys are what they were, and the scan
  goes on with the next line. Whatever the notes refused in between, the last call of a
  scan that has streamed the history is the write of the cursor: if it succeeds, the scan
  returns \<open>true\<close> and the notes hold the new cursor. Two failures of the notes do leave
  \<open>processMails\<close>: a failure of this last write, which is returned to the caller while
  the state in memory already holds the head; and a failure of the key listing at the
  start, upon which \<open>processMails\<close> returns the error, having made no other call.
\<close>

theorem storage_failure_in_a_message_is_skipped:
  assumes "ls_tree e = Inr out" and "revParse e = Inr h" and "cursor w \<noteq> h"
    and "snd (git_log e (cursor w @ js ''..'' @ h)) = None"
  shows "(\<not> startsWith line (js ''@@ '') \<and> counter s = Some 1 \<and>
          parseMBoxMessageIDAndReferences e (buffer s @ drop 1 line @ [10]) = Inr (mid, refs) \<and>
          \<not> seen (keys s) mid \<and>
          resolve e f (filter (seen (keys s)) refs) (None, None, None)
            (emit (ParseMBoxMessageIDAndReferences (buffer s @ drop 1 line @ [10]))
               (s\<lparr>buffer := buffer s @ drop 1 line @ [10], counter := Some 0\<rparr>))
            = (Inl reason, s1) \<longrightarrow>
          (\<exists>k. last (trace s1) = NotesGet k \<and>
               notes_fault e (butlast (trace s1)) (NotesGet k) = Some reason) \<and>
          last (trace (lineHandler e f line s)) = ConsoleLog (reason @ js '': skipping'') \<and>
          deliveries (trace (lineHandler e f line s)) = deliveries (trace s) \<and>
          writes (trace (lineHandler e f line s)) = writes (trace s) \<and>
          store (lineHandler e f line s) = store s \<and>
          keys (lineHandler e f line s) = keys s) \<and>
         (\<not> startsWith line (js ''@@ '') \<and> counter s = Some 1 \<and>
          parseMBoxMessageIDAndReferences e (buffer s @ drop 1 line @ [10]) = Inr (mid, refs) \<and>
          \<not> seen (keys s) mid \<and>
          resolve e f (filter (seen (keys s)) refs) (None, None, None)
            (emit (ParseMBoxMessageIDAndReferences (buffer s @ drop 1 line @ [10]))
               (s\<lparr>buffer := buffer s @ drop 1 line @ [10], counter := Some 0\<rparr>))
            = (Inr (Some url, commit, cid), s1) \<and>
          url \<noteq> [] \<and>
          parseMBox e (buffer s @ drop 1 line @ [10]) = Inr parsed \<and>
          tr = trace s1 @ [ConsoleLog (message_line mid (buffer s @ drop 1 line @ [10])
                                         url commit cid),
                           ParseMBox (buffer s @ drop 1 line @ [10])] \<and>
          github e tr (chosen_delivery e url commit cid (comment_text e mid parsed)) = Inr i \<and>
          rcd = MailMetadata \<lparr>messageID = mid, pullRequestURL = Some url,
                  originalCommit = commit,
                  issueCommentId = (if truthy_number cid \<or> truthy_string commit then Some i
                                    else cid)\<rparr> \<and>
          notes_fault e (tr @ [chosen_delivery e url commit cid (comment_text e mid parsed)])
            (NotesSet mid rcd False) = Some reason \<longrightarrow>
          last (trace (lineHandler e f line s)) = ConsoleLog (reason @ js '': skipping'') \<and>
          writes (trace (lineHandler e f line s)) = writes (trace s) @ [NotesSet mid rcd False] \<and>
          store (lineHandler e f line s) = store s \<and>
          keys (lineHandler e f line s) = keys s) \<and>
         last (trace (snd (processMails e f w)))
           = NotesSet stateKey (MirrorState \<lparr>latestRevision = Some h\<rparr>) True \<and>
         (notes_fault e (butlast (trace (snd (processMails e f w))))
            (NotesSet stateKey (MirrorState \<lparr>latestRevision = Some h\<rparr>) True) = None \<longrightarrow>
          fst (processMails e f w) = Inr True \<and>
          store (snd (processMails e f w)) stateKey
            = Some (MirrorState \<lparr>latestRevision = Some h\<rparr>)) \<and>
         (notes_fault e (butlast (trace (snd (processMails e f w))))
            (NotesSet stateKey (MirrorState \<lparr>latestRevision = Some h\<rparr>) True) = Some err \<longrightarrow>
          fst (processMails e f w) = Inl err \<and>
          state (snd (processMails e f w)) = \<lparr>latestRevision = Some h\<rparr>) \<and>
         (ls_tree e' = Inl err \<longrightarrow> processMails e' f w = (Inl err, emit GitLsTree w))"
proof (intro conjI impI)
  assume a: "\<not> startsWith line (js ''@@ '') \<and> counter s = Some 1 \<and>
          parseMBoxMessageIDAndReferences e (buffer s @ drop 1 line @ [10]) = Inr (mid, refs) \<and>
          \<not> seen (keys s) mid \<and>
          resolve e f (filter (seen (keys s)) refs) (None, None, None)
            (emit (ParseMBoxMessageIDAndReferences (buffer s @ drop 1 line @ [10]))
               (s\<lparr>buffer := buffer s @ drop 1 line @ [10], counter := Some 0\<rparr>))
            = (Inl reason, s1)"
  then have res: "resolve e f (filter (seen (keys s)) refs) (None, None, None)
            (emit (ParseMBoxMessageIDAndReferences (buffer s @ drop 1 line @ [10]))
               (s\<lparr>buffer := buffer s @ drop 1 line @ [10], counter := Some 0\<rparr>))
            = (Inl reason, s1)" by blast
  have L: "lineHandler e f line s = emit (skipping reason) s1"
    using a by (intro failed_read_is_skipped [OF _ _ refl _ refl]) blast+
  show "\<exists>k. last (trace s1) = NotesGet k \<and>
               notes_fault e (butlast (trace s1)) (NotesGet k) = Some reason"
    using res by (rule resolve_error)
  show "last (trace (lineHandler e f line s)) = ConsoleLog (reason @ js '': skipping'')"
    by (simp add: L skipping_def)
  show "deliveries (trace (lineHandler e f line s)) = deliveries (trace s)"
    using resolve_keep(6) [OF res] by (simp add: L skipping_def)
  show "writes (trace (lineHandler e f line s)) = writes (trace s)"
    using resolve_keep(7) [OF res] by (simp add: L skipping_def)
  show "store (lineHandler e f line s) = store s"
    using resolve_keep(2) [OF res] by (simp add: L)
  show "keys (lineHandler e f line s) = keys s"
    using resolve_keep(1) [OF res] by (simp add: L)
next
  let ?msg = "buffer s @ drop 1 line @ [10]"
  assume a: "\<not> startsWith line (js ''@@ '') \<and> counter s = Some 1 \<and>
          parseMBoxMessageIDAndReferences e ?msg = Inr (mid, refs) \<and>
          \<not> seen (keys s) mid \<and>
          resolve e f (filter (seen (keys s)) refs) (None, None, None)
            (emit (ParseMBoxMessageIDAndReferences ?msg)
               (s\<lparr>buffer := ?msg, counter := Some 0\<rparr>))
            = (Inr (Some url, commit, cid), s1) \<and>
          url \<noteq> [] \<and>
          parseMBox e ?msg = Inr parsed \<and>
          tr = trace s1 @ [ConsoleLog (message_line mid ?msg url commit cid), ParseMBox ?msg] \<and>
          github e tr (chosen_delivery e url commit cid (comment_text e mid parsed)) = Inr i \<and>
          rcd = MailMetadata \<lparr>messageID = mid, pullRequestURL = Some url,
                  originalCommit = commit,
                  issueCommentId = (if truthy_number cid \<or> truthy_string commit then Some i
                                    else cid)\<rparr> \<and>
          notes_fault e (tr @ [chosen_delivery e url commit cid (comment_text e mid parsed)])
            (NotesSet mid rcd False) = Some reason"
  then have res: "resolve e f (filter (seen (keys s)) refs) (None, None, None)
            (emit (ParseMBoxMessageIDAndReferences ?msg)
               (s\<lparr>buffer := ?msg, counter := Some 0\<rparr>))
            = (Inr (Some url, commit, cid), s1)" by blast
  have L: "lineHandler e f line s =
           emit (skipping reason)
             (emit (NotesSet mid rcd False)
                (emit (chosen_delivery e url commit cid (comment_text e mid parsed))
                   (emit (ParseMBox ?msg)
                      (emit (ConsoleLog (message_line mid ?msg url commit cid)) s1))))"
    using a by (intro failed_write_is_skipped [OF _ _ refl _ refl, where tr = tr and i = i]) blast+
  show "last (trace (lineHandler e f line s)) = ConsoleLog (reason @ js '': skipping'')"
    by (simp add: L skipping_def)
  show "writes (trace (lineHandler e f line s)) = writes (trace s) @ [NotesSet mid rcd False]"
    using resolve_keep(7) [OF res] by (simp add: L skipping_def)
  show "store (lineHandler e f line s) = store s"
    using resolve_keep(2) [OF res] by (simp add: L)
  show "keys (lineHandler e f line s) = keys s"
    using resolve_keep(1) [OF res] by (simp add: L)
next
  from scan_end [OF assms, of f] obtain w6 where
    w6: "state w6 = \<lparr>latestRevision = Some h\<rparr>"
    and run: "processMails e f w =
             (case notes_fault e (trace w6) (NotesSet stateKey (MirrorState \<lparr>latestRevision = Some h\<rparr>) True) of
                Some err \<Rightarrow> (Inl err, emit (NotesSet stateKey (MirrorState \<lparr>latestRevision = Some h\<rparr>) True) w6)
              | None \<Rightarrow> (Inr True, (emit (NotesSet stateKey (MirrorState \<lparr>latestRevision = Some h\<rparr>) True) w6)
                     \<lparr>store := (store w6)(stateKey \<mapsto> MirrorState \<lparr>latestRevision = Some h\<rparr>)\<rparr>))"
    by blast
  show "last (trace (snd (processMails e f w)))
           = NotesSet stateKey (MirrorState \<lparr>latestRevision = Some h\<rparr>) True"
    using run by (simp split: option.splits)
  have bl: "butlast (trace (snd (processMails e f w))) = trace w6"
    using run by (simp split: option.splits)
  {
    assume "notes_fault e (butlast (trace (snd (processMails e f w))))
            (NotesSet stateKey (MirrorState \<lparr>latestRevision = Some h\<rparr>) True) = None"
    then have ok: "notes_fault e (trace w6)
            (NotesSet stateKey (MirrorState \<lparr>latestRevision = Some h\<rparr>) True) = None"
      by (simp only: bl)
    show "fst (processMails e f w) = Inr True" using run ok by simp
    show "store (snd (processMails e f w)) stateKey
            = Some (MirrorState \<lparr>latestRevision = Some h\<rparr>)" using run ok by simp
  }
  {
    assume "notes_fault e (butlast (trace (snd (processMails e f w))))
            (NotesSet stateKey (MirrorState \<lparr>latestRevision = Some h\<rparr>) True) = Some err"
    then have bad: "notes_fault e (trace w6)
            (NotesSet stateKey (MirrorState \<lparr>latestRevision = Some h\<rparr>) True) = Some err"
      by (simp only: bl)
    show "fst (processMails e f w) = Inl err" using run bad by simp
    show "state (snd (processMails e f w)) = \<lparr>latestRevision = Some h\<rparr>"
      using run bad w6 by simp
  }
next
  assume "ls_tree e' = Inl err"
  then show "processMails e' f w = (Inl err, emit GitLsTree w)"
    by (rule processMails_no_listing)
qed

section \<open>Lines of the diff\<close>




















section \<open>The scenarios, evaluated\<close>

lemma replicate_num: "replicate (numeral k) x = x # replicate (pred_numeral k) x"
  by (simp add: numeral_eq_Suc)

lemma chunks_num: "chunks (numeral k) n xs = take n xs # chunks (pred_numeral k) n (drop n xs)"
  by (simp add: numeral_eq_Suc)

lemma schedule_num: "schedule (numeral k) (w0 # w1 # w2 # w3 # w4 # w5 # w6 # w7 # w8 # w9 # w10 # w11 # w12 # w13 # w14 # w15 # r) =
     w0 # schedule (pred_numeral k)
            [w1, w2, w3, w4, w5, w6, w7, w8, w9, w10, w11, w12, w13, w14, w15,
             rotl32 1 (w13 XOR w8 XOR w2 XOR w0)]"
  by (simp add: numeral_eq_Suc)

lemmas sha1_eval = sha1_def sha1_block_def sha1_pad_def Let_def replicate_num chunks_num schedule_num
  rotl32_def sha1_f_def sha1_k_def be32_bytes_def hex_def hex_digit_def
  git_blob_input_def ascii_def is_high_surrogate_def is_low_surrogate_def
  utf8_code_point_def decimal.simps

lemma hashKey_a: "hashKey (js ''a'') = js ''78981922613b2afb6025042ff6bd878ac1994e85''"
  unfolding hashKey_bytes by (simp add: sha1_eval js_def)

lemma hashKey_b: "hashKey (js ''b'') = js ''61780798228d17af2d34fce4cfbdf35556832472''"
  unfolding hashKey_bytes by (simp add: sha1_eval js_def)

lemma hashKey_c: "hashKey (js ''c'') = js ''f2ad6c76f0115a6ba5b00456a849810e7ec0af20''"
  unfolding hashKey_bytes by (simp add: sha1_eval js_def)

lemma hashKey_m: "hashKey (js ''m'') = js ''28ce6a8b26aa170e1de65536fe8abe1832bd3242''"
  unfolding hashKey_bytes by (simp add: sha1_eval js_def)

lemmas digests = hashKey_a [unfolded js_def, simplified] hashKey_b [unfolded js_def, simplified]
  hashKey_c [unfolded js_def, simplified] hashKey_m [unfolded js_def, simplified]

lemmas scenario_defs = env0_def world0_def scan0_def notes0_def record_A_def record_B_def record_C_def
  url5_def head1_def diff0_def mail0_def text0_def

lemmas run_defs = Let_def emit_def truthy_string_def truthy_number_def firstRevision_def
  start_scan_def feed_def lineHandler_def startsWith_def hunk_match_def strip_prefix_def is_digit_def
  parseInt_def truthy_counter_def mboxHandler_def seen_def notes_get_def adopt_def deliver_def
  github_call_def notes_set_def world.defs scan.defs skipping_def stateKey_def

lemma seen0:
  "seen (keys scan0) (js ''a'')" "seen (keys scan0) (js ''b'')" "seen (keys scan0) (js ''c'')"
  "\<not> seen (keys scan0) (js ''m'')"
  by (simp_all add: seen_def scan0_def start_scan_def scan.defs world.defs digests js_def)

lemma resolve0:
  "resolve env0 None [js ''a'', js ''b'', js ''c''] (None, None, None) scan0
     = (Inr (Some url5, Some (js ''c0ffee''), None),
        scan0\<lparr>trace := [NotesGet (js ''a''), NotesGet (js ''b''), NotesGet (js ''c'')]\<rparr>)"
  by (simp add: run_defs scenario_defs js_def)

lemma handle0:
  "mboxHandler env0 None (js ''m'') [js ''a'', js ''b'', js ''c''] mail0 scan0
     = (Inr (),
        scan0\<lparr>trace := [NotesGet (js ''a''), NotesGet (js ''b''), NotesGet (js ''c''),
                          ConsoleLog (message_line (js ''m'') mail0 url5 (Some (js ''c0ffee'')) None),
                          ParseMBox mail0,
                          AddPRCommitComment url5 (js ''c0ffee'') (js ''.'')
                            text0,
                          NotesSet (js ''m'')
                            (MailMetadata \<lparr>messageID = js ''m'', pullRequestURL = Some url5,
                               originalCommit = Some (js ''c0ffee''), issueCommentId = Some 42\<rparr>)
                            False],
               store := notes0(js ''m'' \<mapsto>
                          MailMetadata \<lparr>messageID = js ''m'', pullRequestURL = Some url5,
                            originalCommit = Some (js ''c0ffee''), issueCommentId = Some 42\<rparr>),
               keys := insert (hashKey (js ''m'')) (keys scan0)\<rparr>)"
  by (simp add: run_defs scenario_defs digests js_def)

lemma listed0: "listed_keys listing0 = {hashKey (js ''a''), hashKey (js ''b''), hashKey (js ''c''), []}"
  by (simp add: listed_keys_def listing0_def digests js_def insert_commute)

lemmas more_defs = scan1_def env_down_def env_unread_def env_unlisted_def world1_def range0_def
  record_M_def cursor_note_def processMails_def message_line_def listed0

lemma resolve_a:
  "resolve env0 None [js ''a''] (None, None, None) scan0
     = (Inr (Some url5, None, None), scan0\<lparr>trace := [NotesGet (js ''a'')]\<rparr>)"
  by (simp add: run_defs scenario_defs js_def)

lemma resolve_ab:
  "resolve env0 None [js ''a'', js ''b''] (None, None, None) scan0
     = (Inr (Some url5, None, Some 17),
        scan0\<lparr>trace := [NotesGet (js ''a''), NotesGet (js ''b'')]\<rparr>)"
  by (simp add: run_defs scenario_defs js_def)

lemma handle_a:
  "mboxHandler env0 None (js ''m'') [js ''a''] mail0 scan0
     = (Inr (),
        scan0\<lparr>trace := [NotesGet (js ''a''),
                          ConsoleLog (message_line (js ''m'') mail0 url5 None None),
                          ParseMBox mail0,
                          AddPRComment url5 text0,
                          NotesSet (js ''m'')
                            (MailMetadata \<lparr>messageID = js ''m'', pullRequestURL = Some url5,
                               originalCommit = None, issueCommentId = None\<rparr>)
                            False],
               store := notes0(js ''m'' \<mapsto>
                          MailMetadata \<lparr>messageID = js ''m'', pullRequestURL = Some url5,
                            originalCommit = None, issueCommentId = None\<rparr>),
               keys := insert (hashKey (js ''m'')) (keys scan0)\<rparr>)"
  by (simp add: run_defs scenario_defs digests js_def)

lemma run_unread:
  "processMails env_unread None world0
     = (Inr True,
        \<lparr>store = notes0(stateKey \<mapsto> cursor_note),
         state = \<lparr>latestRevision = Some head1\<rparr>,
         trace = [GitLsTree, RevParse, GitLog range0,
                  ParseMBoxMessageIDAndReferences mail0,
                  NotesGet (js ''a''),
                  ConsoleLog (js ''Error: cannot read notes: skipping''),
                  NotesSet stateKey cursor_note True]\<rparr>)"
  by (simp add: more_defs run_defs scenario_defs digests js_def)

lemma run_down:
  "processMails env_down None world0
     = (Inr True,
        \<lparr>store = notes0(stateKey \<mapsto> cursor_note),
         state = \<lparr>latestRevision = Some head1\<rparr>,
         trace = [GitLsTree, RevParse, GitLog range0,
                  ParseMBoxMessageIDAndReferences mail0,
                  NotesGet (js ''a''), NotesGet (js ''b''), NotesGet (js ''c''),
                  ConsoleLog (message_line (js ''m'') mail0 url5 (Some (js ''c0ffee'')) None),
                  ParseMBox mail0,
                  AddPRCommitComment url5 (js ''c0ffee'') (js ''.'') text0,
                  ConsoleLog (js ''HttpError: 502: skipping''),
                  NotesSet stateKey cursor_note True]\<rparr>)"
  by (simp add: more_defs run_defs scenario_defs digests js_def)

lemma run0:
  "processMails env0 None world0
     = (Inr True,
        \<lparr>store = notes0(js ''m'' \<mapsto> MailMetadata record_M, stateKey \<mapsto> cursor_note),
         state = \<lparr>latestRevision = Some head1\<rparr>,
         trace = [GitLsTree, RevParse, GitLog range0,
                  ParseMBoxMessageIDAndReferences mail0,
                  NotesGet (js ''a''), NotesGet (js ''b''), NotesGet (js ''c''),
                  ConsoleLog (message_line (js ''m'') mail0 url5 (Some (js ''c0ffee'')) None),
                  ParseMBox mail0,
                  AddPRCommitComment url5 (js ''c0ffee'') (js ''.'') text0,
                  NotesSet (js ''m'') (MailMetadata record_M) False,
                  NotesSet stateKey cursor_note True]\<rparr>)"
  by (simp add: more_defs run_defs scenario_defs digests js_def)

lemmas failure_defs = env_unwritten_def env_uncursor_def env_unparsed_def diff1_def

lemma run_unwritten:
  "processMails env_unwritten None world0
     = (Inr True,
        \<lparr>store = notes0(stateKey \<mapsto> cursor_note),
         state = \<lparr>latestRevision = Some head1\<rparr>,
         trace = [GitLsTree, RevParse, GitLog range0,
                  ParseMBoxMessageIDAndReferences mail0,
                  NotesGet (js ''a''), NotesGet (js ''b''), NotesGet (js ''c''),
                  ConsoleLog (message_line (js ''m'') mail0 url5 (Some (js ''c0ffee'')) None),
                  ParseMBox mail0,
                  AddPRCommitComment url5 (js ''c0ffee'') (js ''.'') text0,
                  NotesSet (js ''m'') (MailMetadata record_M) False,
                  ConsoleLog (js ''Error: cannot write notes: skipping''),
                  ParseMBoxMessageIDAndReferences mail0,
                  NotesGet (js ''a''), NotesGet (js ''b''), NotesGet (js ''c''),
                  ConsoleLog (message_line (js ''m'') mail0 url5 (Some (js ''c0ffee'')) None),
                  ParseMBox mail0,
                  AddPRCommitComment url5 (js ''c0ffee'') (js ''.'') text0,
                  NotesSet (js ''m'') (MailMetadata record_M) False,
                  ConsoleLog (js ''Error: cannot write notes: skipping''),
                  NotesSet stateKey cursor_note True]\<rparr>)"
  by (simp add: failure_defs more_defs run_defs scenario_defs digests js_def)

lemma run_uncursor:
  "processMails env_uncursor None world0
     = (Inl (js ''Error: cannot write notes''),
        \<lparr>store = notes0(js ''m'' \<mapsto> MailMetadata record_M),
         state = \<lparr>latestRevision = Some head1\<rparr>,
         trace = [GitLsTree, RevParse, GitLog range0,
                  ParseMBoxMessageIDAndReferences mail0,
                  NotesGet (js ''a''), NotesGet (js ''b''), NotesGet (js ''c''),
                  ConsoleLog (message_line (js ''m'') mail0 url5 (Some (js ''c0ffee'')) None),
                  ParseMBox mail0,
                  AddPRCommitComment url5 (js ''c0ffee'') (js ''.'') text0,
                  NotesSet (js ''m'') (MailMetadata record_M) False,
                  NotesSet stateKey cursor_note True]\<rparr>)"
  by (simp add: failure_defs more_defs run_defs scenario_defs digests js_def)

lemma handle_unparsed:
  "mboxHandler env_unparsed None (js ''m'') [js ''a'', js ''b'', js ''c''] mail0 scan0
     = (Inl (js ''Error: cannot parse the mail''),
        scan0\<lparr>trace := [NotesGet (js ''a''), NotesGet (js ''b''), NotesGet (js ''c''),
                          ConsoleLog (message_line (js ''m'') mail0 url5 (Some (js ''c0ffee'')) None),
                          ParseMBox mail0]\<rparr>)"
  by (simp add: failure_defs run_defs scenario_defs digests js_def)

lemma resolve_unparsed:
  "resolve env_unparsed None [js ''a'', js ''b'', js ''c''] (None, None, None) scan0
     = (Inr (Some url5, Some (js ''c0ffee''), None),
        scan0\<lparr>trace := [NotesGet (js ''a''), NotesGet (js ''b''), NotesGet (js ''c'')]\<rparr>)"
  by (simp add: failure_defs run_defs scenario_defs js_def)

lemma handle_unwritten:
  "mboxHandler env_unwritten None (js ''m'') [js ''a'', js ''b'', js ''c''] mail0 scan0
     = (Inl (js ''Error: cannot write notes''),
        scan0\<lparr>trace := [NotesGet (js ''a''), NotesGet (js ''b''), NotesGet (js ''c''),
                          ConsoleLog (message_line (js ''m'') mail0 url5 (Some (js ''c0ffee'')) None),
                          ParseMBox mail0,
                          AddPRCommitComment url5 (js ''c0ffee'') (js ''.'') text0,
                          NotesSet (js ''m'') (MailMetadata record_M) False]\<rparr>)"
  by (simp add: failure_defs more_defs run_defs scenario_defs digests js_def)

lemma blob_empty:
  "js (hex (sha1 (git_blob_input []))) = js ''8b137891791fe96927ad78e64b0aad7bded08bdc''"
  by (simp add: sha1_eval)

lemma blob_abc:
  "js (hex (sha1 (git_blob_input (js ''abc'')))) = js ''8baef1b4abc478178b004d62031cf7fe6db6f903''"
  by (simp add: sha1_eval js_def)

lemma blob_emoji:
  "js (hex (sha1 (git_blob_input [0xD83D, 0xDE00]))) = js ''b41d3dbc54bd11bd42b47123dd20d9527191493d''"
  by (simp add: sha1_eval)

lemma scan0_fields:
  "store scan0 = notes0" "trace scan0 = []" "buffer scan0 = []" "counter scan0 = Some 0"
  "keys scan0 = {hashKey (js ''a''), hashKey (js ''b''), hashKey (js ''c'')}"
  "state scan0 = \<lparr>latestRevision = None\<rparr>"
  by (simp_all add: scan0_def start_scan_def world0_def world.defs scan.defs)

lemma env0_fields:
  "ls_tree env0 = Inr listing0" "revParse env0 = Inr head1" "git_log env0 r = (diff0, None)"
  "parseMBox env0 mbox = Inr \<lparr>sender = None, headers = [], body = []\<rparr>"
  "comment_text env0 mid parsed = text0" "github env0 tr ev = Inr 42"
  "notes_fault env0 tr ev = None" "workDir env0 = js ''.''"
  "parseMBoxMessageIDAndReferences env0 mail0 = Inr (js ''m'', [js ''a'', js ''b'', js ''c''])"
  by (simp_all add: env0_def)

lemma url5_nonempty: "url5 \<noteq> []"
  by (simp add: url5_def js_def)

lemma known0:
  "filter (seen (keys scan0)) [js ''a'', js ''b'', js ''c''] = [js ''a'', js ''b'', js ''c'']"
  "filter (seen (keys scan0)) [js ''a'', js ''b''] = [js ''a'', js ''b'']"
  "filter (seen (keys scan0)) [js ''a''] = [js ''a'']"
  using seen0 by simp_all

lemma cursor0: "cursor world0 = firstRevision" "firstRevision \<noteq> head1"
  "cursor world0 @ js ''..'' @ head1 = range0"
  by (simp_all add: cursor_def world0_def truthy_string_def firstRevision_def head1_def
      range0_def js_def)

lemma env_down_fields:
  "ls_tree env_down = Inr listing0" "revParse env_down = Inr head1"
  "git_log env_down r = (diff0, None)"
  "parseMBox env_down mbox = Inr \<lparr>sender = None, headers = [], body = []\<rparr>"
  "comment_text env_down mid parsed = text0" "github env_down tr ev = Inl (js ''HttpError: 502'')"
  "notes_fault env_down tr ev = None" "workDir env_down = js ''.''"
  "parseMBoxMessageIDAndReferences env_down mail0
     = Inr (js ''m'', [js ''a'', js ''b'', js ''c''])"
  by (simp_all add: env_down_def env0_def)

lemma env_unread_fields:
  "ls_tree env_unread = Inr listing0" "revParse env_unread = Inr head1"
  "git_log env_unread r = (diff0, None)"
  "notes_fault env_unread tr (NotesGet k) = Some (js ''Error: cannot read notes'')"
  "notes_fault env_unread tr (NotesSet k v b) = None"
  by (simp_all add: env_unread_def env0_def)

lemma scan1_fields:
  "store scan1 = notes0" "trace scan1 = []" "counter scan1 = Some 1" "keys scan1 = keys scan0"
  "buffer scan1 @ drop 1 line2 @ [10] = mail0"
  by (simp_all add: scan1_def scan0_fields line2_def mail0_def js_def)

lemma resolve_down:
  "resolve env_down None (filter (seen (keys scan1)) [js ''a'', js ''b'', js ''c''])
     (None, None, None)
     (emit (ParseMBoxMessageIDAndReferences mail0) (scan1\<lparr>buffer := mail0, counter := Some 0\<rparr>))
   = (Inr (Some url5, Some (js ''c0ffee''), None), scan2)"
  unfolding scan1_fields known0
  by (simp add: run_defs scenario_defs scan1_def scan2_def env_down_def js_def)

lemma env_unwritten_fields:
  "ls_tree env_unwritten = Inr listing0" "revParse env_unwritten = Inr head1"
  "git_log env_unwritten r = (diff1, None)"
  "parseMBox env_unwritten mbox = Inr \<lparr>sender = None, headers = [], body = []\<rparr>"
  "comment_text env_unwritten mid parsed = text0" "github env_unwritten tr ev = Inr 42"
  "notes_fault env_unwritten tr (NotesGet k) = None"
  "notes_fault env_unwritten tr (NotesSet k (MailMetadata d) b)
     = Some (js ''Error: cannot write notes'')"
  "notes_fault env_unwritten tr (NotesSet k (MirrorState st) b) = None"
  "workDir env_unwritten = js ''.''"
  "parseMBoxMessageIDAndReferences env_unwritten mail0
     = Inr (js ''m'', [js ''a'', js ''b'', js ''c''])"
  by (simp_all add: env_unwritten_def env0_def)

lemma env_uncursor_fields:
  "ls_tree env_uncursor = Inr listing0" "revParse env_uncursor = Inr head1"
  "git_log env_uncursor r = (diff0, None)"
  "notes_fault env_uncursor tr (NotesSet k (MirrorState st) b)
     = Some (js ''Error: cannot write notes'')"
  by (simp_all add: env_uncursor_def env0_def)

lemma env_unparsed_fields:
  "parseMBox env_unparsed mbox = Inl (js ''Error: cannot parse the mail'')"
  by (simp add: env_unparsed_def)

lemma resolve_unread:
  "resolve env_unread None (filter (seen (keys scan1)) [js ''a'', js ''b'', js ''c''])
     (None, None, None)
     (emit (ParseMBoxMessageIDAndReferences mail0) (scan1\<lparr>buffer := mail0, counter := Some 0\<rparr>))
   = (Inl (js ''Error: cannot read notes''),
      scan0\<lparr>buffer := mail0, counter := Some 0,
             trace := [ParseMBoxMessageIDAndReferences mail0, NotesGet (js ''a'')]\<rparr>)"
  unfolding scan1_fields known0
  by (simp add: run_defs scenario_defs scan1_def env_unread_def js_def)

lemma resolve_unwritten:
  "resolve env_unwritten None (filter (seen (keys scan1)) [js ''a'', js ''b'', js ''c''])
     (None, None, None)
     (emit (ParseMBoxMessageIDAndReferences mail0) (scan1\<lparr>buffer := mail0, counter := Some 0\<rparr>))
   = (Inr (Some url5, Some (js ''c0ffee''), None), scan2)"
  unfolding scan1_fields known0
  by (simp add: run_defs scenario_defs scan1_def scan2_def env_unwritten_def js_def)

section \<open>The theorems on the scenarios\<close>

text \<open>
  The empty key, an ASCII key and a key of one character outside the basic plane (two code units, four bytes).
\<close>

theorem hashKey_git_blob_witness:
  "hashKey [] = js ''8b137891791fe96927ad78e64b0aad7bded08bdc'' \<and>
   hashKey (js ''abc'') = js ''8baef1b4abc478178b004d62031cf7fe6db6f903'' \<and>
   byteLength [0xD83D, 0xDE00] = 4 \<and>
   hashKey [0xD83D, 0xDE00] = js ''b41d3dbc54bd11bd42b47123dd20d9527191493d''"
proof -
  have "byteLength [0xD83D, 0xDE00] = 4"
    by (simp add: byteLength_def is_high_surrogate_def is_low_surrogate_def utf8_code_point_def)
  then show ?thesis
    using hashKey_git_blob [of "[]"] hashKey_git_blob [of "js ''abc''"]
      hashKey_git_blob [of "[0xD83D, 0xDE00]"] blob_empty blob_abc blob_emoji
    by simp
qed

text \<open>
  The three records of the scenario.
\<close>

theorem last_improving_record_wins_witness:
  "store scan0 (js ''a'') = Some (MailMetadata record_A) \<and>
   store scan0 (js ''b'') = Some (MailMetadata record_B) \<and>
   store scan0 (js ''c'') = Some (MailMetadata record_C) \<and>
   pullRequestURL record_A = Some url5 \<and> originalCommit record_A = None \<and>
   issueCommentId record_A = None \<and>
   pullRequestURL record_B = Some url5 \<and> originalCommit record_B = None \<and>
   issueCommentId record_B = Some 17 \<and>
   pullRequestURL record_C = Some url5 \<and> originalCommit record_C = Some (js ''c0ffee'') \<and>
   issueCommentId record_C = None \<and>
   seen (keys scan0) (js ''a'') \<and> seen (keys scan0) (js ''b'') \<and> seen (keys scan0) (js ''c'') \<and>
   \<not> seen (keys scan0) (js ''m'') \<and>
   fst (resolve env0 None [js ''a'', js ''b'', js ''c''] (None, None, None) scan0)
     = Inr (Some url5, Some (js ''c0ffee''), None) \<and>
   deliveries (trace (snd (mboxHandler env0 None (js ''m'') [js ''a'', js ''b'', js ''c'']
                              mail0 scan0)))
     = [AddPRCommitComment url5 (js ''c0ffee'') (js ''.'') text0]"
proof -
  have st: "store scan0 (js ''a'') = Some (MailMetadata record_A)"
    "store scan0 (js ''b'') = Some (MailMetadata record_B)"
    "store scan0 (js ''c'') = Some (MailMetadata record_C)"
    by (simp_all add: scan0_def start_scan_def world0_def notes0_def world.defs js_def)
  have recs: "pullRequestURL record_A = Some url5" "originalCommit record_A = None"
    "issueCommentId record_A = None"
    "pullRequestURL record_B = Some url5" "originalCommit record_B = None"
    "issueCommentId record_B = Some 17"
    "pullRequestURL record_C = Some url5" "originalCommit record_C = Some (js ''c0ffee'')"
    "issueCommentId record_C = None"
    by (simp_all add: record_A_def record_B_def record_C_def)
  have u: "url5 \<noteq> []" "js ''c0ffee'' \<noteq> []" by (simp_all add: url5_def js_def)
  have p: "\<not> startsWith (js ''c'') (js ''pull'')" by (simp add: startsWith_def js_def)
  have rd: "\<forall>tr k. notes_fault env0 tr (NotesGet k) = None" by (simp add: env0_def)
  have pm: "parseMBox env0 mail0 = Inr \<lparr>sender = None, headers = [], body = []\<rparr>"
    by (simp add: env0_def)
  have tr0: "trace scan0 = []" by (simp add: scan0_def start_scan_def world0_def world.defs)
  have wd: "workDir env0 = js ''.''" by (simp add: env0_def)
  from last_improving_record_wins [where s = scan0 and a = "js ''a''" and b = "js ''b''"
      and c = "js ''c''" and A = record_A and B = record_B and C = record_C and f = None
      and e = env0 and mid = "js ''m''" and mbox = mail0, OF st(1) _ _ _ st(2) _ _ _ st(3) _ _ _ p _ rd
      seen0 pm]
  show ?thesis
    using st recs seen0 u tr0 wd
    by (simp add: truthy_string_def truthy_number_def env0_fields del: resolve.simps)
qed

text \<open>
  Claim C1 as it was stated fails on these records: \<open>B\<close> brings the comment 17, but the target after \<open>C\<close> has no comment, and the message is posted as a comment on the commit, not as a reply.
\<close>

theorem merge_drops_comment_id:
  "issueCommentId record_B = Some 17 \<and>
   fst (resolve env0 None [js ''a'', js ''b'', js ''c''] (None, None, None) scan0)
     = Inr (Some url5, Some (js ''c0ffee''), None) \<and>
   deliveries (trace (snd (mboxHandler env0 None (js ''m'') [js ''a'', js ''b'', js ''c'']
                              mail0 scan0)))
     = [AddPRCommitComment url5 (js ''c0ffee'') (js ''.'') text0]"
  by (simp add: resolve0 handle0 record_B_def del: resolve.simps)

text \<open>
  The message \<open>a\<close> is known and stays untouched after the whole of \<open>diff0\<close>; the message \<open>m\<close> is delivered once and is known from then on; and when the notes refuse its record, \<open>m\<close> is delivered and not known.
\<close>

theorem known_message_is_not_delivered_witness:
  "hashKey (js ''a'') \<in> keys scan0 \<and>
   mboxHandler env0 None (js ''a'') [] mail0 (feed env0 None diff0 scan0)
     = (Inr (), feed env0 None diff0 scan0) \<and>
   fst (mboxHandler env0 None (js ''m'') [js ''a'', js ''b'', js ''c''] mail0 scan0) = Inr () \<and>
   deliveries (trace (snd (mboxHandler env0 None (js ''m'') [js ''a'', js ''b'', js ''c'']
                              mail0 scan0)))
     = [AddPRCommitComment url5 (js ''c0ffee'') (js ''.'') text0] \<and>
   deliveries (trace scan0) = [] \<and>
   hashKey (js ''m'') \<in> keys (snd (mboxHandler env0 None (js ''m'')
                                       [js ''a'', js ''b'', js ''c''] mail0 scan0)) \<and>
   fst (mboxHandler env_unwritten None (js ''m'') [js ''a'', js ''b'', js ''c''] mail0 scan0)
     = Inl (js ''Error: cannot write notes'') \<and>
   deliveries (trace (snd (mboxHandler env_unwritten None (js ''m'') [js ''a'', js ''b'', js ''c'']
                              mail0 scan0)))
     = [AddPRCommitComment url5 (js ''c0ffee'') (js ''.'') text0] \<and>
   keys (snd (mboxHandler env_unwritten None (js ''m'') [js ''a'', js ''b'', js ''c'']
                mail0 scan0)) = keys scan0 \<and>
   hashKey (js ''m'') \<notin> keys scan0"
proof -
  have a: "hashKey (js ''a'') \<in> keys scan0" by (simp add: scan0_fields)
  have d: "deliveries (trace (snd (mboxHandler env0 None (js ''m'') [js ''a'', js ''b'', js ''c'']
                              mail0 scan0)))
     = [AddPRCommitComment url5 (js ''c0ffee'') (js ''.'') text0]"
    "deliveries (trace scan0) = []"
    "fst (mboxHandler env0 None (js ''m'') [js ''a'', js ''b'', js ''c''] mail0 scan0) = Inr ()"
    by (simp_all add: handle0 scan0_fields)
  have u: "fst (mboxHandler env_unwritten None (js ''m'') [js ''a'', js ''b'', js ''c''] mail0 scan0)
     = Inl (js ''Error: cannot write notes'')"
    "deliveries (trace (snd (mboxHandler env_unwritten None (js ''m'') [js ''a'', js ''b'', js ''c'']
                              mail0 scan0)))
     = [AddPRCommitComment url5 (js ''c0ffee'') (js ''.'') text0]"
    by (simp_all add: handle_unwritten)
  have m: "hashKey (js ''m'') \<notin> keys scan0" using seen0(4) by (simp add: seen_def)
  from known_message_is_not_delivered [where mid = "js ''a''" and s = scan0 and e = env0
      and f = None and refs = "[]" and mbox = mail0 and ls = diff0]
    known_message_is_not_delivered [where mid = "js ''m''" and s = scan0 and e = env0
      and f = None and refs = "[js ''a'', js ''b'', js ''c'']" and mbox = mail0 and ls = diff0]
    known_message_is_not_delivered [where mid = "js ''m''" and s = scan0 and e = env_unwritten
      and f = None and refs = "[js ''a'', js ''b'', js ''c'']" and mbox = mail0 and ls = diff0]
    a d u m
  show ?thesis by simp
qed

text \<open>
  Claim C2 as it was stated fails: the notes refuse the record of \<open>m\<close>, the history brings \<open>m\<close> twice, and the scan, which returns \<open>true\<close>, posts the same comment twice.
\<close>

theorem unrecorded_message_is_delivered_again:
  "parseMBoxMessageIDAndReferences env_unwritten mail0
     = Inr (js ''m'', [js ''a'', js ''b'', js ''c'']) \<and>
   fst (processMails env_unwritten None world0) = Inr True \<and>
   emitted (trace (snd (processMails env_unwritten None world0)))
     = [ParseMBoxMessageIDAndReferences mail0, ParseMBoxMessageIDAndReferences mail0] \<and>
   deliveries (trace (snd (processMails env_unwritten None world0)))
     = [AddPRCommitComment url5 (js ''c0ffee'') (js ''.'') text0,
        AddPRCommitComment url5 (js ''c0ffee'') (js ''.'') text0]"
  by (simp add: run_unwritten env_unwritten_fields)



text \<open>
  The three modes, on the references \<open>a, b\<close> (a comment is known), \<open>a, b, c\<close> (a commit is what the choice ends with) and \<open>a\<close> alone; and a mail that the parser rejects.
\<close>

theorem one_delivery_by_precedence_witness:
  "\<not> seen (keys scan0) (js ''m'') \<and> url5 \<noteq> [] \<and>
   parseMBox env0 mail0 = Inr \<lparr>sender = None, headers = [], body = []\<rparr> \<and>
   fst (resolve env0 None (filter (seen (keys scan0)) [js ''a'', js ''b''])
          (None, None, None) scan0) = Inr (Some url5, None, Some 17) \<and>
   deliveries (trace (snd (mboxHandler env0 None (js ''m'') [js ''a'', js ''b''] mail0 scan0)))
     = [AddPRCommentReply url5 17 text0] \<and>
   fst (resolve env0 None (filter (seen (keys scan0)) [js ''a'', js ''b'', js ''c''])
          (None, None, None) scan0) = Inr (Some url5, Some (js ''c0ffee''), None) \<and>
   deliveries (trace (snd (mboxHandler env0 None (js ''m'') [js ''a'', js ''b'', js ''c'']
                              mail0 scan0)))
     = [AddPRCommitComment url5 (js ''c0ffee'') (js ''.'') text0] \<and>
   fst (resolve env0 None (filter (seen (keys scan0)) [js ''a'']) (None, None, None) scan0)
     = Inr (Some url5, None, None) \<and>
   deliveries (trace (snd (mboxHandler env0 None (js ''m'') [js ''a''] mail0 scan0)))
     = [AddPRComment url5 text0] \<and>
   parseMBox env_unparsed mail0 = Inl (js ''Error: cannot parse the mail'') \<and>
   fst (resolve env_unparsed None (filter (seen (keys scan0)) [js ''a'', js ''b'', js ''c''])
          (None, None, None) scan0) = Inr (Some url5, Some (js ''c0ffee''), None) \<and>
   fst (mboxHandler env_unparsed None (js ''m'') [js ''a'', js ''b'', js ''c''] mail0 scan0)
     = Inl (js ''Error: cannot parse the mail'') \<and>
   deliveries (trace (snd (mboxHandler env_unparsed None (js ''m'') [js ''a'', js ''b'', js ''c'']
                              mail0 scan0))) = []"
proof -
  have r1: "resolve env0 None (filter (seen (keys scan0)) [js ''a'', js ''b''])
               (None, None, None) scan0
             = (Inr (Some url5, None, Some 17),
                scan0\<lparr>trace := [NotesGet (js ''a''), NotesGet (js ''b'')]\<rparr>)"
    by (simp only: known0 resolve_ab)
  have r2: "resolve env0 None (filter (seen (keys scan0)) [js ''a'', js ''b'', js ''c''])
               (None, None, None) scan0
             = (Inr (Some url5, Some (js ''c0ffee''), None),
                scan0\<lparr>trace := [NotesGet (js ''a''), NotesGet (js ''b''), NotesGet (js ''c'')]\<rparr>)"
    by (simp only: known0 resolve0)
  have r3: "resolve env0 None (filter (seen (keys scan0)) [js ''a'']) (None, None, None) scan0
             = (Inr (Some url5, None, None), scan0\<lparr>trace := [NotesGet (js ''a'')]\<rparr>)"
    by (simp only: known0 resolve_a)
  have r4: "resolve env_unparsed None (filter (seen (keys scan0)) [js ''a'', js ''b'', js ''c''])
               (None, None, None) scan0
             = (Inr (Some url5, Some (js ''c0ffee''), None),
                scan0\<lparr>trace := [NotesGet (js ''a''), NotesGet (js ''b''), NotesGet (js ''c'')]\<rparr>)"
    by (simp only: known0 resolve_unparsed)
  from one_delivery_by_precedence [OF seen0(4) r1 url5_nonempty,
      where mbox = mail0 and parsed = "\<lparr>sender = None, headers = [], body = []\<rparr>"]
    one_delivery_by_precedence [OF seen0(4) r2 url5_nonempty,
      where mbox = mail0 and parsed = "\<lparr>sender = None, headers = [], body = []\<rparr>"]
    one_delivery_by_precedence [OF seen0(4) r3 url5_nonempty,
      where mbox = mail0 and parsed = "\<lparr>sender = None, headers = [], body = []\<rparr>"]
    one_delivery_by_precedence [OF seen0(4) r4 url5_nonempty,
      where mbox = mail0 and err = "js ''Error: cannot parse the mail''"]
    seen0(4) url5_nonempty r1 r2 r3 r4
  show ?thesis
    by (simp add: scan0_fields env0_fields env_unparsed_fields truthy_number_def
        truthy_string_def js_def del: resolve.simps)
qed

text \<open>
  Claim C5 as it was stated fails: the pull request and the commit of \<open>m\<close> are chosen, the parser rejects the mail, and no comment is posted.
\<close>

theorem unparsed_message_is_not_delivered:
  "\<not> seen (keys scan0) (js ''m'') \<and>
   fst (resolve env_unparsed None (filter (seen (keys scan0)) [js ''a'', js ''b'', js ''c''])
          (None, None, None) scan0) = Inr (Some url5, Some (js ''c0ffee''), None) \<and>
   parseMBox env_unparsed mail0 = Inl (js ''Error: cannot parse the mail'') \<and>
   fst (mboxHandler env_unparsed None (js ''m'') [js ''a'', js ''b'', js ''c''] mail0 scan0)
     = Inl (js ''Error: cannot parse the mail'') \<and>
   deliveries (trace (snd (mboxHandler env_unparsed None (js ''m'') [js ''a'', js ''b'', js ''c'']
                              mail0 scan0))) = []"
proof -
  have "resolve env_unparsed None (filter (seen (keys scan0)) [js ''a'', js ''b'', js ''c''])
               (None, None, None) scan0
             = (Inr (Some url5, Some (js ''c0ffee''), None),
                scan0\<lparr>trace := [NotesGet (js ''a''), NotesGet (js ''b''), NotesGet (js ''c'')]\<rparr>)"
    by (simp only: known0 resolve_unparsed)
  then show ?thesis
    using seen0(4) by (simp add: handle_unparsed env_unparsed_fields del: resolve.simps)
qed

text \<open>
  The cursor of \<open>world1\<close> is the head.
\<close>

theorem no_new_history_is_a_no_op_witness:
  "ls_tree env0 = Inr listing0 \<and> revParse env0 = Inr head1 \<and> cursor world1 = head1 \<and>
   fst (processMails env0 None world1) = Inr False \<and>
   store (snd (processMails env0 None world1)) = store world1 \<and>
   cursor (snd (processMails env0 None world1)) = head1 \<and>
   trace (snd (processMails env0 None world1)) = [GitLsTree, RevParse] \<and>
   deliveries (trace (snd (processMails env0 None world1))) = [] \<and>
   writes (trace (snd (processMails env0 None world1))) = []"
proof -
  have c: "cursor world1 = head1"
    by (simp add: cursor_def world1_def truthy_string_def head1_def js_def)
  have t: "trace world1 = []" by (simp add: world1_def)
  from no_new_history_is_a_no_op [OF env0_fields(1,2) c, of None] c t
  show ?thesis by (simp add: env0_fields)
qed

text \<open>
  GitHub refuses the comment for \<open>m\<close>; the scan of \<open>world0\<close> still stores the head.
\<close>

theorem cursor_advances_after_scan_witness:
  "ls_tree env_down = Inr listing0 \<and> revParse env_down = Inr head1 \<and>
   cursor world0 \<noteq> head1 \<and> snd (git_log env_down (cursor world0 @ js ''..'' @ head1)) = None \<and>
   state (snd (processMails env_down None world0)) = \<lparr>latestRevision = Some head1\<rparr> \<and>
   last (trace (snd (processMails env_down None world0)))
     = NotesSet stateKey (MirrorState \<lparr>latestRevision = Some head1\<rparr>) True \<and>
   fst (processMails env_down None world0) = Inr True \<and>
   store (snd (processMails env_down None world0)) stateKey
     = Some (MirrorState \<lparr>latestRevision = Some head1\<rparr>) \<and>
   \<not> startsWith line2 (js ''@@ '') \<and> counter scan1 = Some 1 \<and>
   buffer scan1 @ drop 1 line2 @ [10] = mail0 \<and>
   parseMBoxMessageIDAndReferences env_down mail0
     = Inr (js ''m'', [js ''a'', js ''b'', js ''c'']) \<and>
   \<not> seen (keys scan1) (js ''m'') \<and>
   github env_down
     (trace scan2 @ [ConsoleLog (message_line (js ''m'') mail0 url5 (Some (js ''c0ffee'')) None),
                     ParseMBox mail0])
     (chosen_delivery env_down url5 (Some (js ''c0ffee'')) None text0)
     = Inl (js ''HttpError: 502'') \<and>
   last (trace (lineHandler env_down None line2 scan1))
     = ConsoleLog (js ''HttpError: 502'' @ js '': skipping'') \<and>
   writes (trace (lineHandler env_down None line2 scan1)) = [] \<and>
   store (lineHandler env_down None line2 scan1) = notes0 \<and>
   keys (lineHandler env_down None line2 scan1) = keys scan1"
proof -
  have h3: "cursor world0 \<noteq> head1" using cursor0 by simp
  have h4: "snd (git_log env_down (cursor world0 @ js ''..'' @ head1)) = None"
    by (simp add: env_down_fields)
  have l2: "\<not> startsWith line2 (js ''@@ '')" by (simp add: startsWith_def line2_def js_def)
  have unseen: "\<not> seen (keys scan1) (js ''m'')" using seen0(4) by (simp add: scan1_fields)
  note T = cursor_advances_after_scan [OF env_down_fields(1,2) h3 h4,
      where f = None and line = line2 and s = scan1 and mid = "js ''m''"
        and refs = "[js ''a'', js ''b'', js ''c'']" and url = url5
        and commit = "Some (js ''c0ffee'')" and cid = None and ?s1.0 = scan2
        and parsed = "\<lparr>sender = None, headers = [], body = []\<rparr>"
        and reason = "js ''HttpError: 502''", unfolded scan1_fields(5)]
  from T h3 h4 l2 unseen resolve_down url5_nonempty scan1_fields(5)
  show ?thesis
    by (simp add: env_down_fields scan1_fields del: resolve.simps)
qed

text \<open>
  Claim C8 as it was stated fails: the notes refuse the read for the reference \<open>a\<close>, the scan logs it and goes on, returns \<open>true\<close> and has stored the cursor.
\<close>

theorem notes_failure_does_not_abort_the_scan:
  "notes_fault env_unread
     [GitLsTree, RevParse, GitLog range0, ParseMBoxMessageIDAndReferences mail0]
     (NotesGet (js ''a'')) = Some (js ''Error: cannot read notes'') \<and>
   processMails env_unread None world0
     = (Inr True,
        \<lparr>store = notes0(stateKey \<mapsto> cursor_note),
         state = \<lparr>latestRevision = Some head1\<rparr>,
         trace = [GitLsTree, RevParse, GitLog range0,
                  ParseMBoxMessageIDAndReferences mail0,
                  NotesGet (js ''a''),
                  ConsoleLog (js ''Error: cannot read notes: skipping''),
                  NotesSet stateKey cursor_note True]\<rparr>)"
  by (simp add: run_unread env_unread_fields)

text \<open>
  The notes refuse every read; the notes refuse the record of \<open>m\<close>; the notes refuse the cursor; and the listing fails.
\<close>

theorem storage_failure_in_a_message_is_skipped_witness:
  "ls_tree env_unread = Inr listing0 \<and> revParse env_unread = Inr head1 \<and>
   cursor world0 \<noteq> head1 \<and> snd (git_log env_unread (cursor world0 @ js ''..'' @ head1)) = None \<and>
   \<not> startsWith line2 (js ''@@ '') \<and> counter scan1 = Some 1 \<and>
   buffer scan1 @ drop 1 line2 @ [10] = mail0 \<and>
   \<not> seen (keys scan1) (js ''m'') \<and>
   fst (resolve env_unread None (filter (seen (keys scan1)) [js ''a'', js ''b'', js ''c''])
          (None, None, None)
          (emit (ParseMBoxMessageIDAndReferences mail0)
             (scan1\<lparr>buffer := mail0, counter := Some 0\<rparr>)))
     = Inl (js ''Error: cannot read notes'') \<and>
   last (trace (lineHandler env_unread None line2 scan1))
     = ConsoleLog (js ''Error: cannot read notes'' @ js '': skipping'') \<and>
   deliveries (trace (lineHandler env_unread None line2 scan1)) = [] \<and>
   writes (trace (lineHandler env_unread None line2 scan1)) = [] \<and>
   store (lineHandler env_unread None line2 scan1) = notes0 \<and>
   keys (lineHandler env_unread None line2 scan1) = keys scan1 \<and>
   last (trace (snd (processMails env_unread None world0)))
     = NotesSet stateKey (MirrorState \<lparr>latestRevision = Some head1\<rparr>) True \<and>
   fst (processMails env_unread None world0) = Inr True \<and>
   store (snd (processMails env_unread None world0)) stateKey
     = Some (MirrorState \<lparr>latestRevision = Some head1\<rparr>) \<and>
   github env_unwritten
     (trace scan2 @ [ConsoleLog (message_line (js ''m'') mail0 url5 (Some (js ''c0ffee'')) None),
                     ParseMBox mail0])
     (chosen_delivery env_unwritten url5 (Some (js ''c0ffee'')) None text0) = Inr 42 \<and>
   notes_fault env_unwritten
     (trace scan2 @ [ConsoleLog (message_line (js ''m'') mail0 url5 (Some (js ''c0ffee'')) None),
                     ParseMBox mail0,
                     chosen_delivery env_unwritten url5 (Some (js ''c0ffee'')) None text0])
     (NotesSet (js ''m'') (MailMetadata record_M) False) = Some (js ''Error: cannot write notes'') \<and>
   last (trace (lineHandler env_unwritten None line2 scan1))
     = ConsoleLog (js ''Error: cannot write notes'' @ js '': skipping'') \<and>
   writes (trace (lineHandler env_unwritten None line2 scan1))
     = [NotesSet (js ''m'') (MailMetadata record_M) False] \<and>
   store (lineHandler env_unwritten None line2 scan1) = notes0 \<and>
   keys (lineHandler env_unwritten None line2 scan1) = keys scan1 \<and>
   ls_tree env_uncursor = Inr listing0 \<and> revParse env_uncursor = Inr head1 \<and>
   snd (git_log env_uncursor (cursor world0 @ js ''..'' @ head1)) = None \<and>
   fst (processMails env_uncursor None world0) = Inl (js ''Error: cannot write notes'') \<and>
   state (snd (processMails env_uncursor None world0)) = \<lparr>latestRevision = Some head1\<rparr> \<and>
   store (snd (processMails env_uncursor None world0)) stateKey = None \<and>
   ls_tree env_unlisted = Inl (js ''fatal: not a tree object'') \<and>
   processMails env_unlisted None world0
     = (Inl (js ''fatal: not a tree object''), emit GitLsTree world0)"
proof -
  have h3: "cursor world0 \<noteq> head1" using cursor0 by simp
  have h4: "snd (git_log env_unread (cursor world0 @ js ''..'' @ head1)) = None"
    by (simp add: env_unread_fields)
  have h4w: "snd (git_log env_unwritten (cursor world0 @ js ''..'' @ head1)) = None"
    by (simp add: env_unwritten_fields)
  have h4c: "snd (git_log env_uncursor (cursor world0 @ js ''..'' @ head1)) = None"
    by (simp add: env_uncursor_fields)
  have l2: "\<not> startsWith line2 (js ''@@ '')" by (simp add: startsWith_def line2_def js_def)
  have unseen: "\<not> seen (keys scan1) (js ''m'')" using seen0(4) by (simp add: scan1_fields)
  have u: "ls_tree env_unlisted = Inl (js ''fatal: not a tree object'')"
    by (simp add: env_unlisted_def)
  have pr: "parseMBoxMessageIDAndReferences env_unread mail0
              = Inr (js ''m'', [js ''a'', js ''b'', js ''c''])"
    by (simp add: env_unread_def env0_def)
  have rc: "MailMetadata record_M = MailMetadata \<lparr>messageID = js ''m'', pullRequestURL = Some url5,
                 originalCommit = Some (js ''c0ffee''),
                 issueCommentId = (if truthy_number None \<or> truthy_string (Some (js ''c0ffee''))
                                   then Some 42 else None)\<rparr>"
    by (simp add: record_M_def truthy_string_def js_def)
  have st: "store (snd (processMails env_uncursor None world0)) stateKey = None"
    by (simp add: run_uncursor notes0_def record_M_def stateKey_def js_def)
  note T1 = storage_failure_in_a_message_is_skipped [OF env_unread_fields(1,2) h3 h4,
      where f = None and line = line2 and s = scan1 and mid = "js ''m''"
        and refs = "[js ''a'', js ''b'', js ''c'']"
        and reason = "js ''Error: cannot read notes''"
        and ?s1.0 = "scan0\<lparr>buffer := mail0, counter := Some 0,
             trace := [ParseMBoxMessageIDAndReferences mail0, NotesGet (js ''a'')]\<rparr>",
      unfolded scan1_fields(5)]
  note T2 = storage_failure_in_a_message_is_skipped [OF env_unwritten_fields(1,2) h3 h4w,
      where f = None and line = line2 and s = scan1 and mid = "js ''m''"
        and refs = "[js ''a'', js ''b'', js ''c'']" and url = url5
        and commit = "Some (js ''c0ffee'')" and cid = None and ?s1.0 = scan2
        and parsed = "\<lparr>sender = None, headers = [], body = []\<rparr>"
        and i = 42 and rcd = "MailMetadata record_M"
        and tr = "trace scan2 @ [ConsoleLog (message_line (js ''m'') mail0 url5 (Some (js ''c0ffee'')) None),
                     ParseMBox mail0]"
        and reason = "js ''Error: cannot write notes''", unfolded scan1_fields(5)]
  note T3 = storage_failure_in_a_message_is_skipped [OF env_uncursor_fields(1,2) h3 h4c,
      where f = None and e' = env_unlisted and err = "js ''Error: cannot write notes''"]
  note T4 = storage_failure_in_a_message_is_skipped [OF env_uncursor_fields(1,2) h3 h4c,
      where f = None and e' = env_unlisted and err = "js ''fatal: not a tree object''"]
  from T1 h3 h4 l2 unseen resolve_unread pr scan1_fields(5)
  have A: "last (trace (lineHandler env_unread None line2 scan1))
     = ConsoleLog (js ''Error: cannot read notes'' @ js '': skipping'') \<and>
   deliveries (trace (lineHandler env_unread None line2 scan1)) = [] \<and>
   writes (trace (lineHandler env_unread None line2 scan1)) = [] \<and>
   store (lineHandler env_unread None line2 scan1) = notes0 \<and>
   keys (lineHandler env_unread None line2 scan1) = keys scan1 \<and>
   last (trace (snd (processMails env_unread None world0)))
     = NotesSet stateKey (MirrorState \<lparr>latestRevision = Some head1\<rparr>) True \<and>
   fst (processMails env_unread None world0) = Inr True \<and>
   store (snd (processMails env_unread None world0)) stateKey
     = Some (MirrorState \<lparr>latestRevision = Some head1\<rparr>)"
    by (simp add: env_unread_fields scan1_fields del: resolve.simps)
  from T2 l2 unseen resolve_unwritten url5_nonempty scan1_fields(5) rc
  have B: "last (trace (lineHandler env_unwritten None line2 scan1))
     = ConsoleLog (js ''Error: cannot write notes'' @ js '': skipping'') \<and>
   writes (trace (lineHandler env_unwritten None line2 scan1))
     = [NotesSet (js ''m'') (MailMetadata record_M) False] \<and>
   store (lineHandler env_unwritten None line2 scan1) = notes0 \<and>
   keys (lineHandler env_unwritten None line2 scan1) = keys scan1"
    by (simp add: env_unwritten_fields scan1_fields del: resolve.simps)
  from T3 have C: "fst (processMails env_uncursor None world0) = Inl (js ''Error: cannot write notes'') \<and>
   state (snd (processMails env_uncursor None world0)) = \<lparr>latestRevision = Some head1\<rparr>"
    by (simp add: env_uncursor_fields)
  from T4 u have D: "processMails env_unlisted None world0
     = (Inl (js ''fatal: not a tree object''), emit GitLsTree world0)"
    by simp
  have r: "fst (resolve env_unread None (filter (seen (keys scan1)) [js ''a'', js ''b'', js ''c''])
          (None, None, None)
          (emit (ParseMBoxMessageIDAndReferences mail0)
             (scan1\<lparr>buffer := mail0, counter := Some 0\<rparr>)))
     = Inl (js ''Error: cannot read notes'')"
    by (simp only: resolve_unread fst_conv)
  show ?thesis
    using A B C D r st h3 h4 h4c l2 unseen u scan1_fields(5)
    by (simp add: env_unread_fields env_unwritten_fields env_uncursor_fields scan1_fields
        record_M_def del: resolve.simps)
qed

text \<open>
  Claim C9 as it was stated fails for a comment on the pull request: the message \<open>m\<close> refers to \<open>a\<close> alone, GitHub answers 42 to \<open>addPRComment\<close>, and the record written for \<open>m\<close> has no \<open>issueCommentId\<close>.
\<close>

theorem thread_comment_id_is_not_recorded:
  "github env0 [NotesGet (js ''a''), ConsoleLog (message_line (js ''m'') mail0 url5 None None),
                ParseMBox mail0] (AddPRComment url5 text0) = Inr 42 \<and>
   fst (mboxHandler env0 None (js ''m'') [js ''a''] mail0 scan0) = Inr () \<and>
   deliveries (trace (snd (mboxHandler env0 None (js ''m'') [js ''a''] mail0 scan0)))
     = [AddPRComment url5 text0] \<and>
   store (snd (mboxHandler env0 None (js ''m'') [js ''a''] mail0 scan0)) (js ''m'')
     = Some (MailMetadata \<lparr>messageID = js ''m'', pullRequestURL = Some url5,
               originalCommit = None, issueCommentId = None\<rparr>)"
  by (simp add: handle_a env0_fields)

text \<open>
  The message \<open>m\<close> is posted as a comment on the commit of \<open>c\<close>; GitHub answers 42, which the record keeps.
\<close>

theorem delivery_is_recorded_witness:
  "\<not> seen (keys scan0) (js ''m'') \<and> url5 \<noteq> [] \<and>
   chosen_delivery env0 url5 (Some (js ''c0ffee'')) None text0
     = AddPRCommitComment url5 (js ''c0ffee'') (js ''.'') text0 \<and>
   github env0 [NotesGet (js ''a''), NotesGet (js ''b''), NotesGet (js ''c''),
                ConsoleLog (message_line (js ''m'') mail0 url5 (Some (js ''c0ffee'')) None),
                ParseMBox mail0]
     (AddPRCommitComment url5 (js ''c0ffee'') (js ''.'') text0) = Inr 42 \<and>
   issueCommentId record_M = Some 42 \<and>
   fst (mboxHandler env0 None (js ''m'') [js ''a'', js ''b'', js ''c''] mail0 scan0) = Inr () \<and>
   store (snd (mboxHandler env0 None (js ''m'') [js ''a'', js ''b'', js ''c''] mail0 scan0))
     = notes0(js ''m'' \<mapsto> MailMetadata record_M) \<and>
   writes (trace (snd (mboxHandler env0 None (js ''m'') [js ''a'', js ''b'', js ''c'']
                         mail0 scan0)))
     = [NotesSet (js ''m'') (MailMetadata record_M) False] \<and>
   keys (snd (mboxHandler env0 None (js ''m'') [js ''a'', js ''b'', js ''c''] mail0 scan0))
     = insert (hashKey (js ''m'')) (keys scan0)"
proof -
  have r: "resolve env0 None (filter (seen (keys scan0)) [js ''a'', js ''b'', js ''c''])
               (None, None, None) scan0
             = (Inr (Some url5, Some (js ''c0ffee''), None),
                scan0\<lparr>trace := [NotesGet (js ''a''), NotesGet (js ''b''), NotesGet (js ''c'')]\<rparr>)"
    by (simp only: known0 resolve0)
  have ch: "chosen_delivery env0 url5 (Some (js ''c0ffee'')) None text0
     = AddPRCommitComment url5 (js ''c0ffee'') (js ''.'') text0"
    by (simp add: chosen_delivery_def truthy_number_def truthy_string_def env0_fields js_def)
  have rc: "record_M = \<lparr>messageID = js ''m'', pullRequestURL = Some url5,
                 originalCommit = Some (js ''c0ffee''),
                 issueCommentId = (if truthy_number None \<or> truthy_string (Some (js ''c0ffee''))
                                   then Some 42 else None)\<rparr>"
    by (simp add: record_M_def truthy_string_def js_def)
  from delivery_is_recorded [OF seen0(4) r url5_nonempty env0_fields(4) refl env0_fields(6) rc
      env0_fields(7), of mail0]
  show ?thesis
    using seen0(4) url5_nonempty ch
    by (simp add: scan0_fields env0_fields record_M_def)
qed


text \<open>
  The whole scan of the scenario: the archive is one commit ahead of the first revision,
  the commit adds \<open>m\<close>, which is posted as a comment on the commit of \<open>c\<close> and recorded
  with the identifier 42, and the cursor is stored.
\<close>

theorem end_to_end_scan:
  "processMails env0 None world0
     = (Inr True,
        \<lparr>store = notes0(js ''m'' \<mapsto> MailMetadata record_M, stateKey \<mapsto> cursor_note),
         state = \<lparr>latestRevision = Some head1\<rparr>,
         trace = [GitLsTree, RevParse, GitLog range0,
                  ParseMBoxMessageIDAndReferences mail0,
                  NotesGet (js ''a''), NotesGet (js ''b''), NotesGet (js ''c''),
                  ConsoleLog (message_line (js ''m'') mail0 url5 (Some (js ''c0ffee'')) None),
                  ParseMBox mail0,
                  AddPRCommitComment url5 (js ''c0ffee'') (js ''.'') text0,
                  NotesSet (js ''m'') (MailMetadata record_M) False,
                  NotesSet stateKey cursor_note True]\<rparr>)"
  by (rule run0)

end
